theory Spec2Isabelle
  imports Main
begin

section \<open>Python values and exceptions\<close>

text \<open>
  The values that \<^verbatim>\<open>json.loads\<close> produces and that the code inspects with
  \<^verbatim>\<open>isinstance\<close>, \<^verbatim>\<open>in\<close>, \<^verbatim>\<open>len\<close> and subscripts. A dict is an association list in
  insertion order. Numbers are Python ints; a float takes the same branch as an int at
  every operation of the code below (it is no dict, list or str, has no \<^verbatim>\<open>len\<close> and is
  not iterable), so \<open>JNum\<close> stands for both.
\<close>

datatype json =
    JNull
  | JBool bool
  | JNum int
  | JStr string
  | JArr "json list"
  | JObj "(string \<times> json) list"

text \<open>
  Exceptions, by the classes the handlers of the code tell apart. \<open>HTTPError\<close> is
  \<^verbatim>\<open>httpx.HTTPError\<close> (transport errors and error statuses) with its message,
  \<open>JSONDecodeError\<close> carries the text that did not parse, \<open>TypeError\<close> and
  \<open>AttributeError\<close> carry the operation and the operand the interpreter refused,
  \<open>KeyError\<close> carries the missing key, \<open>DecodeError\<close> is what base64 or UTF-8 decoding
  raises on the text it carries, \<open>Raised\<close> is any other \<^verbatim>\<open>Exception\<close> with its message.
\<close>

datatype py_exc =
    HTTPError string
  | JSONDecodeError string
  | TypeError string json
  | AttributeError string json
  | KeyError string
  | DecodeError string
  | Raised string

record http_response =
  status_code :: int
  mcp_session_id :: "string option"
  content_type :: "string option"
  response_text :: string

text \<open>
  The library functions the code calls and this repository does not define:
  \<^verbatim>\<open>json.loads\<close> (\<open>None\<close> is \<^verbatim>\<open>json.JSONDecodeError\<close>), \<^verbatim>\<open>json.dumps\<close> with the default
  separators and with \<^verbatim>\<open>indent=2\<close>, \<^verbatim>\<open>str()\<close> of a value as an f-string formats it,
  the message of an exception the interpreter raises, \<^verbatim>\<open>base64.b64decode(s).decode()\<close>
  (\<open>None\<close> when it raises) and httpx's \<^verbatim>\<open>raise_for_status\<close> (\<open>Some m\<close> when it raises
  \<^verbatim>\<open>HTTPStatusError\<close> with message \<open>m\<close>). Every function below takes them as the
  parameter \<open>L\<close>.
\<close>

record pylib =
  loads :: "string \<Rightarrow> json option"
  dumps :: "json \<Rightarrow> string"
  dumps_indent2 :: "json \<Rightarrow> string"
  str_of :: "json \<Rightarrow> string"
  exc_text :: "py_exc \<Rightarrow> string"
  b64decode_str :: "string \<Rightarrow> string option"
  status_error :: "http_response \<Rightarrow> string option"

text \<open>\<^verbatim>\<open>str(e)\<close>: the message an exception was raised with, or the interpreter's.\<close>

fun str_exc :: "pylib \<Rightarrow> py_exc \<Rightarrow> string" where
  "str_exc L (HTTPError m) = m"
| "str_exc L (Raised m) = m"
| "str_exc L e = exc_text L e"

text \<open>A value inside an f-string: a str is itself, anything else goes through \<^verbatim>\<open>str()\<close>.\<close>

fun py_format :: "pylib \<Rightarrow> json \<Rightarrow> string" where
  "py_format L (JStr s) = s"
| "py_format L v = str_of L v"

text \<open>Truthiness, as \<^verbatim>\<open>if x:\<close> tests it.\<close>

fun py_truthy :: "json \<Rightarrow> bool" where
  "py_truthy JNull = False"
| "py_truthy (JBool b) = b"
| "py_truthy (JNum n) = (n \<noteq> 0)"
| "py_truthy (JStr s) = (s \<noteq> [])"
| "py_truthy (JArr xs) = (xs \<noteq> [])"
| "py_truthy (JObj kvs) = (kvs \<noteq> [])"

text \<open>\<^verbatim>\<open>d.get(k)\<close> and \<^verbatim>\<open>d.get(k, default)\<close> on a dict.\<close>

definition dict_get_default :: "(string \<times> json) list \<Rightarrow> string \<Rightarrow> json \<Rightarrow> json" where
  "dict_get_default d k dflt = (case map_of d k of None \<Rightarrow> dflt | Some v \<Rightarrow> v)"

definition dict_get :: "(string \<times> json) list \<Rightarrow> string \<Rightarrow> json" where
  "dict_get d k = dict_get_default d k JNull"

text \<open>\<^verbatim>\<open>s.startswith(p)\<close> and \<^verbatim>\<open>p in s\<close> on strings.\<close>

definition startswith :: "string \<Rightarrow> string \<Rightarrow> bool" where
  "startswith s p = (take (length p) s = p)"

fun str_contains :: "string \<Rightarrow> string \<Rightarrow> bool" where
  "str_contains [] p = (p = [])"
| "str_contains (c # cs) p = (startswith (c # cs) p \<or> str_contains cs p)"

text \<open>
  \<^verbatim>\<open>k in v\<close> for a string \<open>k\<close>: key membership on a dict, element membership on a list,
  substring on a str, \<^verbatim>\<open>TypeError\<close> on anything else.
\<close>

fun py_in :: "string \<Rightarrow> json \<Rightarrow> py_exc + bool" where
  "py_in k (JObj kvs) = Inr (k \<in> set (map fst kvs))"
| "py_in k (JArr xs) = Inr (JStr k \<in> set xs)"
| "py_in k (JStr s) = Inr (str_contains s k)"
| "py_in k v = Inl (TypeError ''in'' v)"

text \<open>\<^verbatim>\<open>v[k]\<close> for a string \<open>k\<close>: only a dict can be subscripted by a str.\<close>

fun py_getitem :: "json \<Rightarrow> string \<Rightarrow> py_exc + json" where
  "py_getitem (JObj kvs) k = (case map_of kvs k of None \<Rightarrow> Inl (KeyError k) | Some v \<Rightarrow> Inr v)"
| "py_getitem v k = Inl (TypeError ''getitem'' v)"

text \<open>\<^verbatim>\<open>len(v)\<close>.\<close>

fun py_len :: "json \<Rightarrow> py_exc + nat" where
  "py_len (JStr s) = Inr (length s)"
| "py_len (JArr xs) = Inr (length xs)"
| "py_len (JObj kvs) = Inr (length kvs)"
| "py_len v = Inl (TypeError ''len'' v)"

text \<open>\<^verbatim>\<open>v.get\<close>: only a dict has the attribute.\<close>

fun py_as_dict :: "json \<Rightarrow> py_exc + (string \<times> json) list" where
  "py_as_dict (JObj kvs) = Inr kvs"
| "py_as_dict v = Inl (AttributeError ''get'' v)"

text \<open>\<^verbatim>\<open>json.loads(v)\<close> on a value: a str is parsed, anything else is a \<^verbatim>\<open>TypeError\<close>.\<close>

fun py_json_loads :: "pylib \<Rightarrow> json \<Rightarrow> py_exc + json" where
  "py_json_loads L (JStr s) = (case loads L s of None \<Rightarrow> Inl (JSONDecodeError s) | Some v \<Rightarrow> Inr v)"
| "py_json_loads L v = Inl (TypeError ''loads'' v)"

section \<open>The Lambda responder (mcp\_lambda.py)\<close>

text \<open>
  A registered callable takes keyword arguments and returns a value or raises. The
  registry \<^verbatim>\<open>self.tools\<close> is a dict from names to callables, in insertion order.
\<close>

type_synonym tool = "(string \<times> json) list \<Rightarrow> py_exc + json"

type_synonym registry = "(string \<times> tool) list"

record lambda_response =
  statusCode :: int
  headers :: "(string \<times> string) list"
  body :: string

text \<open>\<^verbatim>\<open>self.tools[tool_name] = fn\<close>: a new key is appended, a known key keeps its place.\<close>

fun dict_set :: "(string \<times> 'a) list \<Rightarrow> string \<Rightarrow> 'a \<Rightarrow> (string \<times> 'a) list" where
  "dict_set [] k v = [(k, v)]"
| "dict_set ((k', v') # d) k v = (if k' = k then (k, v) # d else (k', v') # dict_set d k v)"

text \<open>The decorator \<^verbatim>\<open>tool(name)\<close> applied to a function called \<open>fn_name\<close>.\<close>

definition tool_decorator :: "registry \<Rightarrow> string option \<Rightarrow> string \<Rightarrow> tool \<Rightarrow> registry" where
  "tool_decorator tools name fn_name fn =
     (let tool_name = (case name of None \<Rightarrow> fn_name | Some n \<Rightarrow> if n = [] then fn_name else n)
      in dict_set tools tool_name fn)"

text \<open>
  The methods \<^verbatim>\<open>_response\<close> and \<^verbatim>\<open>_error\<close> (lines 46 to 66): the transport envelope around
  the JSON-RPC envelope, always with status 200.
\<close>

definition server_response :: "pylib \<Rightarrow> json \<Rightarrow> json \<Rightarrow> lambda_response" where
  "server_response L req_id result =
     \<lparr> statusCode = 200,
       headers = [(''Content-Type'', ''application/json'')],
       body = dumps L (JObj [(''jsonrpc'', JStr ''2.0''), (''result'', result), (''id'', req_id)]) \<rparr>"

definition server_error :: "pylib \<Rightarrow> json \<Rightarrow> string \<Rightarrow> lambda_response" where
  "server_error L req_id message =
     \<lparr> statusCode = 200,
       headers = [(''Content-Type'', ''application/json'')],
       body = dumps L (JObj [(''jsonrpc'', JStr ''2.0''),
                             (''error'', JObj [(''message'', JStr message)]),
                             (''id'', req_id)]) \<rparr>"

text \<open>
  \<^verbatim>\<open>name not in self.tools\<close>: a str is looked up, any other hashable value is no key of
  the registry, a list or a dict is unhashable and raises.
\<close>

fun tool_lookup :: "registry \<Rightarrow> json \<Rightarrow> py_exc + tool option" where
  "tool_lookup tools (JStr n) = Inr (map_of tools n)"
| "tool_lookup tools (JArr xs) = Inl (TypeError ''hash'' (JArr xs))"
| "tool_lookup tools (JObj kvs) = Inl (TypeError ''hash'' (JObj kvs))"
| "tool_lookup tools v = Inr None"

text \<open>\<^verbatim>\<open>self.tools[name](**args)\<close>: the arguments must be a mapping.\<close>

fun call_with_kwargs :: "tool \<Rightarrow> json \<Rightarrow> py_exc + json" where
  "call_with_kwargs fn (JObj kvs) = fn kvs"
| "call_with_kwargs fn v = Inl (TypeError ''kwargs'' v)"

text \<open>The body of \<^verbatim>\<open>if method == "tools/call":\<close> (lines 31 to 42).\<close>

definition handle_tools_call ::
  "pylib \<Rightarrow> registry \<Rightarrow> (string \<times> json) list \<Rightarrow> json \<Rightarrow> py_exc + lambda_response" where
  "handle_tools_call L tools request req_id =
     (case py_as_dict (dict_get_default request ''params'' (JObj [])) of
        Inl e \<Rightarrow> Inl e
      | Inr params \<Rightarrow>
          (let name = dict_get params ''name'';
               args = dict_get_default params ''arguments'' (JObj [])
           in case tool_lookup tools name of
                Inl e \<Rightarrow> Inl e
              | Inr None \<Rightarrow> Inr (server_error L req_id (''Unknown tool: '' @ py_format L name))
              | Inr (Some fn) \<Rightarrow>
                  (case call_with_kwargs fn args of
                     Inr result \<Rightarrow> Inr (server_response L req_id result)
                   | Inl e \<Rightarrow> Inr (server_error L req_id (str_exc L e)))))"

text \<open>Lines 15 to 18: the body of the event, base64-decoded when the event says so.\<close>

definition event_body :: "pylib \<Rightarrow> (string \<times> json) list \<Rightarrow> py_exc + json" where
  "event_body L event =
     (let raw = dict_get_default event ''body'' (JStr '''')
      in if py_truthy (dict_get event ''isBase64Encoded'') then
           (case raw of
              JStr s \<Rightarrow> (case b64decode_str L s of None \<Rightarrow> Inl (DecodeError s) | Some t \<Rightarrow> Inr (JStr t))
            | _ \<Rightarrow> Inl (TypeError ''b64decode'' raw))
         else Inr raw)"

definition handle :: "pylib \<Rightarrow> registry \<Rightarrow> (string \<times> json) list \<Rightarrow> py_exc + lambda_response" where
  "handle L tools event =
     (case event_body L event of
        Inl e \<Rightarrow> Inl e
      | Inr raw \<Rightarrow>
          (case py_json_loads L raw of
             Inl e \<Rightarrow> Inl e
           | Inr request_value \<Rightarrow>
               (case py_as_dict request_value of
                  Inl e \<Rightarrow> Inl e
                | Inr request \<Rightarrow>
                    (let method = dict_get request ''method'';
                         req_id = dict_get request ''id''
                     in if method = JStr ''tools/list'' then
                          Inr (server_response L req_id
                                 (JObj [(''tools'', JArr (map (\<lambda>k. JObj [(''name'', JStr k)]) (map fst tools)))]))
                        else if method = JStr ''tools/call'' then
                          handle_tools_call L tools request req_id
                        else
                          Inr (server_error L req_id (''Unknown method: '' @ py_format L method))))))"

section \<open>The session client (bot.py, class MCPClient)\<close>

text \<open>
  A request as \<^verbatim>\<open>self.client.post\<close> sends it: the URL, the JSON payload and the headers
  passed with the call (the client's default headers are the same on every request).
\<close>

record http_request =
  url :: string
  payload :: json
  req_headers :: "(string \<times> string) list"

text \<open>
  The fields of \<^verbatim>\<open>MCPClient\<close>; \<open>sent\<close> is the list of requests posted through
  \<^verbatim>\<open>self.client\<close> so far, oldest first.
\<close>

record mcp_client =
  base_url :: string
  session_id :: "string option"
  request_id :: int
  initialized :: bool
  sent :: "http_request list"

text \<open>
  The network and the remote server: given every request posted so far (the current one
  last), the post returns a response or raises.
\<close>

type_synonym server = "http_request list \<Rightarrow> py_exc + http_response"

definition rstrip_slash :: "string \<Rightarrow> string" where
  "rstrip_slash s = rev (dropWhile (\<lambda>c. c = CHR ''/'') (rev s))"

definition mcp_client_init :: "string \<Rightarrow> mcp_client" where
  "mcp_client_init u =
     \<lparr> base_url = rstrip_slash u, session_id = None, request_id = 0, initialized = False,
       sent = [] \<rparr>"

definition post :: "server \<Rightarrow> mcp_client \<Rightarrow> http_request \<Rightarrow> (py_exc + http_response) \<times> mcp_client" where
  "post srv c req = (let c' = c\<lparr>sent := sent c @ [req]\<rparr> in (srv (sent c'), c'))"

definition init_request :: json where
  "init_request =
     JObj [(''jsonrpc'', JStr ''2.0''),
           (''method'', JStr ''initialize''),
           (''params'', JObj [(''protocolVersion'', JStr ''2025-03-26''),
                              (''capabilities'', JObj []),
                              (''clientInfo'', JObj [(''name'', JStr ''aws-news-slack-bot''),
                                                     (''version'', JStr ''1.0.0'')])]),
           (''id'', JNum 0)]"

definition initialized_notification :: json where
  "initialized_notification =
     JObj [(''jsonrpc'', JStr ''2.0''), (''method'', JStr ''notifications/initialized'')]"

text \<open>\<^verbatim>\<open>headers = {}\<close>, then the session header \<^verbatim>\<open>if self.session_id:\<close>.\<close>

definition session_headers :: "mcp_client \<Rightarrow> (string \<times> string) list" where
  "session_headers c =
     (case session_id c of
        None \<Rightarrow> []
      | Some sid \<Rightarrow> if sid \<noteq> [] then [(''Mcp-Session-Id'', sid)] else [])"

text \<open>
  Lines 237 to 263: the notification after a successful handshake. Its status is only
  logged; the flag is set once the post has returned.
\<close>

definition notification_post :: "mcp_client \<Rightarrow> http_request" where
  "notification_post c =
     \<lparr> url = base_url c @ ''/mcp'', payload = initialized_notification,
       req_headers = session_headers c \<rparr>"

definition send_initialized :: "server \<Rightarrow> mcp_client \<Rightarrow> (py_exc + bool) \<times> mcp_client" where
  "send_initialized srv c =
     (case post srv c (notification_post c) of
        (Inl e, c') \<Rightarrow> (Inl e, c')
      | (Inr notif_response, c') \<Rightarrow> (Inr True, c'\<lparr>initialized := True\<rparr>))"

text \<open>
  Lines 203 to 209: the session id of the response header is stored when it is truthy.
\<close>

definition store_session_id :: "mcp_client \<Rightarrow> http_response \<Rightarrow> mcp_client" where
  "store_session_id c response =
     (case mcp_session_id response of
        None \<Rightarrow> c
      | Some sid \<Rightarrow> if sid \<noteq> [] then c\<lparr>session_id := Some sid\<rparr> else c)"

text \<open>
  Lines 223 to 234: what the parsed JSON body says about the handshake. \<open>Inr True\<close> is
  \<^verbatim>\<open>init_success = True\<close>, \<open>Inr False\<close> is \<^verbatim>\<open>return False\<close>; reading the message of the
  error can raise.
\<close>

definition init_result :: "json \<Rightarrow> py_exc + bool" where
  "init_result result =
     (case py_in ''result'' result of
        Inl e \<Rightarrow> Inl e
      | Inr True \<Rightarrow> Inr True
      | Inr False \<Rightarrow>
          (case py_in ''error'' result of
             Inl e \<Rightarrow> Inl e
           | Inr True \<Rightarrow>
               (case py_getitem result ''error'' of
                  Inl e \<Rightarrow> Inl e
                | Inr err \<Rightarrow>
                    (case py_as_dict err of
                       Inl e \<Rightarrow> Inl e
                     | Inr d \<Rightarrow> Inr False))
           | Inr False \<Rightarrow> Inr False))"

text \<open>
  The body of the \<^verbatim>\<open>try\<close> of \<^verbatim>\<open>initialize\<close> (lines 176 to 265). The session id is stored
  as soon as the response header is read, before the body is looked at.
\<close>

definition init_post :: "mcp_client \<Rightarrow> http_request" where
  "init_post c = \<lparr> url = base_url c @ ''/mcp'', payload = init_request, req_headers = [] \<rparr>"

definition initialize_try :: "pylib \<Rightarrow> server \<Rightarrow> mcp_client \<Rightarrow> (py_exc + bool) \<times> mcp_client" where
  "initialize_try L srv c =
     (if initialized c then (Inr True, c)
      else
        (case post srv c (init_post c) of
           (Inl e, c1) \<Rightarrow> (Inl e, c1)
         | (Inr response, c1) \<Rightarrow>
             (case status_error L response of
                Some m \<Rightarrow> (Inl (HTTPError m), c1)
              | None \<Rightarrow>
                  (let c2 = store_session_id c1 response;
                       ctype = (case content_type response of None \<Rightarrow> [] | Some t \<Rightarrow> t)
                   in if str_contains ctype ''text/event-stream'' then send_initialized srv c2
                      else
                        (case loads L (response_text response) of
                           None \<Rightarrow> (Inl (JSONDecodeError (response_text response)), c2)
                         | Some result \<Rightarrow>
                             (case init_result result of
                                Inl e \<Rightarrow> (Inl e, c2)
                              | Inr True \<Rightarrow> send_initialized srv c2
                              | Inr False \<Rightarrow> (Inr False, c2)))))))"

text \<open>\<^verbatim>\<open>initialize\<close>: the \<^verbatim>\<open>except Exception\<close> handler turns every exception into \<open>False\<close>.\<close>

definition initialize :: "pylib \<Rightarrow> server \<Rightarrow> mcp_client \<Rightarrow> bool \<times> mcp_client" where
  "initialize L srv c =
     (case initialize_try L srv c of
        (Inl e, c') \<Rightarrow> (False, c')
      | (Inr b, c') \<Rightarrow> (b, c'))"

definition tool_request :: "string \<Rightarrow> json \<Rightarrow> int \<Rightarrow> json" where
  "tool_request tool_name arguments rid =
     JObj [(''jsonrpc'', JStr ''2.0''),
           (''method'', JStr ''tools/call''),
           (''params'', JObj [(''name'', JStr tool_name), (''arguments'', arguments)]),
           (''id'', JNum rid)]"

text \<open>
  Lines 273 to 304 of \<^verbatim>\<open>call_tool\<close>: the handshake when the flag is not set (its result
  is not looked at), the next request id, and the post of the request.
\<close>

definition tools_call_post :: "mcp_client \<Rightarrow> string \<Rightarrow> json \<Rightarrow> http_request" where
  "tools_call_post c tool_name arguments =
     \<lparr> url = base_url c @ ''/mcp'',
       payload = tool_request tool_name arguments (request_id c),
       req_headers = session_headers c \<rparr>"

definition send_tools_call ::
  "pylib \<Rightarrow> server \<Rightarrow> mcp_client \<Rightarrow> string \<Rightarrow> json \<Rightarrow> (py_exc + http_response) \<times> mcp_client" where
  "send_tools_call L srv c tool_name arguments =
     (let c1 = (if \<not> initialized c then snd (initialize L srv c) else c);
          c2 = c1\<lparr>request_id := request_id c1 + 1\<rparr>
      in post srv c2 (tools_call_post c2 tool_name arguments))"

text \<open>
  The text of the first content item of a tool result, as both branches of \<^verbatim>\<open>call_tool\<close>
  read it. \<open>first_content\<close> is \<^verbatim>\<open>content[0]\<close> when the result is a dict with a \<^verbatim>\<open>content\<close>
  list that is not empty. \<open>item_text\<close> is \<^verbatim>\<open>'text' in content[0]\<close>, then
  \<^verbatim>\<open>content[0]['text']\<close> and \<^verbatim>\<open>len(text)\<close> inside the log message; each of the three can
  raise. \<open>Inr None\<close> when a condition is false.
\<close>

definition first_content :: "json \<Rightarrow> json option" where
  "first_content tool_result =
     (case tool_result of
        JObj tr \<Rightarrow>
          (case map_of tr ''content'' of
             Some (JArr (first # others)) \<Rightarrow> Some first
           | _ \<Rightarrow> None)
      | _ \<Rightarrow> None)"

definition item_text :: "json \<Rightarrow> py_exc + json option" where
  "item_text first =
     (case py_in ''text'' first of
        Inl e \<Rightarrow> Inl e
      | Inr False \<Rightarrow> Inr None
      | Inr True \<Rightarrow>
          (case py_getitem first ''text'' of
             Inl e \<Rightarrow> Inl e
           | Inr text_value \<Rightarrow>
               (case py_len text_value of
                  Inl e \<Rightarrow> Inl e
                | Inr n \<Rightarrow> Inr (Some text_value))))"

definition content_text :: "json \<Rightarrow> py_exc + json option" where
  "content_text tool_result =
     (case first_content tool_result of
        None \<Rightarrow> Inr None
      | Some first \<Rightarrow> item_text first)"

text \<open>
  Lines 323 to 333: what one parsed \<^verbatim>\<open>data:\<close> payload gives. \<open>event_result\<close> is
  \<^verbatim>\<open>event_data['result']\<close> when the payload is a dict with that key.
\<close>

definition event_result :: "json \<Rightarrow> json option" where
  "event_result event_data =
     (case event_data of
        JObj ed \<Rightarrow> map_of ed ''result''
      | _ \<Rightarrow> None)"

definition sse_event :: "json \<Rightarrow> py_exc + json option" where
  "sse_event event_data =
     (case event_result event_data of
        None \<Rightarrow> Inr None
      | Some tool_result \<Rightarrow> content_text tool_result)"

text \<open>
  The loop over the lines (lines 319 to 338). A payload that is not JSON is skipped
  (\<^verbatim>\<open>except json.JSONDecodeError: continue\<close>); any other exception leaves the loop.
\<close>

fun sse_scan :: "pylib \<Rightarrow> string list \<Rightarrow> py_exc + json" where
  "sse_scan L [] = Inr (JStr ''Error: Could not parse SSE stream response'')"
| "sse_scan L (line # lines) =
     (if startswith line ''data: '' then
        (case loads L (drop 6 line) of
           None \<Rightarrow> sse_scan L lines
         | Some event_data \<Rightarrow>
             (case sse_event event_data of
                Inl e \<Rightarrow> Inl e
              | Inr (Some t) \<Rightarrow> Inr t
              | Inr None \<Rightarrow> sse_scan L lines))
      else sse_scan L lines)"

text \<open>\<^verbatim>\<open>s.strip()\<close> and \<^verbatim>\<open>s.split('\n')\<close> on ASCII text.\<close>

definition is_space :: "char \<Rightarrow> bool" where
  "is_space c = (c \<in> set [CHR 0x20, CHR 0x09, CHR 0x0A, CHR 0x0B, CHR 0x0C, CHR 0x0D,
                           CHR 0x1C, CHR 0x1D, CHR 0x1E, CHR 0x1F])"

definition py_strip :: "string \<Rightarrow> string" where
  "py_strip s = rev (dropWhile is_space (rev (dropWhile is_space s)))"

fun split_on :: "char \<Rightarrow> string \<Rightarrow> string list" where
  "split_on d [] = [[]]"
| "split_on d (c # cs) =
     (if c = d then [] # split_on d cs
      else (let r = split_on d cs in (c # hd r) # tl r))"

text \<open>Lines 340 to 375: the JSON branch.\<close>

definition decode_json_result :: "pylib \<Rightarrow> json \<Rightarrow> py_exc + json" where
  "decode_json_result L result =
     (case result of
        JObj r \<Rightarrow>
          (case map_of r ''error'' of
             Some err \<Rightarrow>
               (case py_as_dict err of
                  Inl e \<Rightarrow> Inl e
                | Inr ed \<Rightarrow>
                    Inr (JStr (''Error from MCP server: ''
                               @ py_format L (dict_get_default ed ''message'' (JStr (str_of L err))))))
           | None \<Rightarrow>
               (case map_of r ''result'' of
                  Some tool_result \<Rightarrow>
                    (case content_text tool_result of
                       Inl e \<Rightarrow> Inl e
                     | Inr (Some t) \<Rightarrow> Inr t
                     | Inr None \<Rightarrow>
                         (case tool_result of
                            JStr s \<Rightarrow> Inr (JStr s)
                          | _ \<Rightarrow> Inr (JStr (dumps_indent2 L tool_result))))
                | None \<Rightarrow> Inr (JStr (dumps_indent2 L result))))
      | _ \<Rightarrow> Inr (JStr (dumps_indent2 L result)))"

text \<open>Lines 305 to 375: what \<^verbatim>\<open>call_tool\<close> makes of the response to its post.\<close>

definition call_tool_response :: "pylib \<Rightarrow> http_response \<Rightarrow> py_exc + json" where
  "call_tool_response L response =
     (case status_error L response of
        Some m \<Rightarrow> Inl (HTTPError m)
      | None \<Rightarrow>
          (let ctype = (case content_type response of None \<Rightarrow> [] | Some t \<Rightarrow> t)
           in if str_contains ctype ''text/event-stream'' then
                sse_scan L (split_on (CHR 0x0A) (py_strip (response_text response)))
              else
                (case loads L (response_text response) of
                   None \<Rightarrow> Inl (JSONDecodeError (response_text response))
                 | Some result \<Rightarrow> decode_json_result L result)))"

text \<open>The body of the \<^verbatim>\<open>try\<close> of \<^verbatim>\<open>call_tool\<close>.\<close>

definition call_tool_try ::
  "pylib \<Rightarrow> server \<Rightarrow> mcp_client \<Rightarrow> string \<Rightarrow> json \<Rightarrow> (py_exc + json) \<times> mcp_client" where
  "call_tool_try L srv c tool_name arguments =
     (case send_tools_call L srv c tool_name arguments of
        (Inl e, c') \<Rightarrow> (Inl e, c')
      | (Inr response, c') \<Rightarrow> (call_tool_response L response, c'))"

text \<open>
  \<^verbatim>\<open>call_tool\<close> with its two handlers: \<^verbatim>\<open>except httpx.HTTPError\<close>, then
  \<^verbatim>\<open>except Exception\<close>.
\<close>

definition call_tool ::
  "pylib \<Rightarrow> server \<Rightarrow> mcp_client \<Rightarrow> string \<Rightarrow> json \<Rightarrow> json \<times> mcp_client" where
  "call_tool L srv c tool_name arguments =
     (case call_tool_try L srv c tool_name arguments of
        (Inr v, c') \<Rightarrow> (v, c')
      | (Inl (HTTPError m), c') \<Rightarrow> (JStr (''Error calling tool: '' @ m), c')
      | (Inl e, c') \<Rightarrow> (JStr (''Error: '' @ str_exc L e), c'))"

section \<open>The tool-dispatch loop (bot.py, chat\_with\_llm)\<close>

text \<open>
  What the loop reads of the model's reply, \<^verbatim>\<open>response.choices[0].message\<close>: the content
  (a str or \<^verbatim>\<open>None\<close>) and the tool calls (\<^verbatim>\<open>None\<close> and the empty list are both falsy, so
  both are the empty list here), each with its id, function name and raw argument string.
\<close>

record tool_call =
  tc_id :: string
  tc_name :: string
  tc_arguments :: string

record assistant_message =
  msg_content :: json
  msg_tool_calls :: "tool_call list"

text \<open>
  The model collaborator, \<^verbatim>\<open>azure_client.chat.completions.create\<close> with the static tool
  list: from the message sequence to a reply, or an exception.
\<close>

type_synonym llm = "json list \<Rightarrow> py_exc + assistant_message"

definition nl :: string where
  "nl = [CHR 0x0A]"

definition system_prompt :: string where
  \<open>system_prompt =
     ''You are AWS News Bot, a helpful assistant that provides information about AWS services, announcements, and news.'' @ nl @ nl @
     ''You have access to tools that can fetch:'' @ nl @
     ''1. AWS news and blog posts for specific services'' @ nl @
     ''2. Latest AWS announcements from the official RSS feed'' @ nl @ nl @
     ''When users ask about AWS news, announcements, or updates:'' @ nl @
     ''- Use the appropriate tool to fetch current information'' @ nl @
     ''- Provide concise, helpful summaries'' @ nl @
     ''- Include relevant details like dates and service names'' @ nl @
     ''- If asked about "this week" or recent news, use the since_date parameter'' @ nl @ nl @
     ''Be conversational and helpful. If the question is not about AWS news, provide general assistance.''\<close>

definition system_message :: json where
  "system_message = JObj [(''role'', JStr ''system''), (''content'', JStr system_prompt)]"

definition user_record :: "string \<Rightarrow> json" where
  "user_record user_message = JObj [(''role'', JStr ''user''), (''content'', JStr user_message)]"



text \<open>The assistant turn appended before the tool calls run (lines 450 to 464).\<close>

definition assistant_record :: "assistant_message \<Rightarrow> json" where
  "assistant_record am =
     JObj [(''role'', JStr ''assistant''),
           (''content'', msg_content am),
           (''tool_calls'',
              JArr (map (\<lambda>tc. JObj [(''id'', JStr (tc_id tc)),
                                     (''type'', JStr ''function''),
                                     (''function'', JObj [(''name'', JStr (tc_name tc)),
                                                          (''arguments'', JStr (tc_arguments tc))])])
                        (msg_tool_calls am)))]"

definition tool_record :: "tool_call \<Rightarrow> json \<Rightarrow> json" where
  "tool_record tc tool_response =
     JObj [(''role'', JStr ''tool''),
           (''tool_call_id'', JStr (tc_id tc)),
           (''content'', tool_response)]"

text \<open>
  The \<^verbatim>\<open>for\<close> loop over the tool calls (lines 467 to 481): the argument string is parsed
  (which can raise), the tool is called through the session client, and the tool turn is
  appended.
\<close>

fun execute_tool_calls ::
  "pylib \<Rightarrow> server \<Rightarrow> mcp_client \<Rightarrow> json list \<Rightarrow> tool_call list \<Rightarrow> (py_exc + json list) \<times> mcp_client" where
  "execute_tool_calls L srv c messages [] = (Inr messages, c)"
| "execute_tool_calls L srv c messages (tc # tcs) =
     (case loads L (tc_arguments tc) of
        None \<Rightarrow> (Inl (JSONDecodeError (tc_arguments tc)), c)
      | Some function_args \<Rightarrow>
          (case call_tool L srv c (tc_name tc) function_args of
             (tool_response, c') \<Rightarrow>
               execute_tool_calls L srv c' (messages @ [tool_record tc tool_response]) tcs))"

text \<open>
  One pass through the body of the \<^verbatim>\<open>try\<close> inside the \<^verbatim>\<open>while\<close> loop (lines 433 to
  481): it returns the model's content, or goes on with the longer message sequence.
\<close>

datatype step = Done json | Next "json list"

definition chat_iteration ::
  "pylib \<Rightarrow> server \<Rightarrow> llm \<Rightarrow> mcp_client \<Rightarrow> json list \<Rightarrow> (py_exc + step) \<times> mcp_client" where
  "chat_iteration L srv model c messages =
     (case model messages of
        Inl e \<Rightarrow> (Inl e, c)
      | Inr am \<Rightarrow>
          if msg_tool_calls am = [] then (Inr (Done (msg_content am)), c)
          else
            (case execute_tool_calls L srv c (messages @ [assistant_record am]) (msg_tool_calls am) of
               (Inl e, c') \<Rightarrow> (Inl e, c')
             | (Inr messages', c') \<Rightarrow> (Inr (Next messages'), c')))"



section \<open>A reference instance of the library\<close>

text \<open>
  An executable instance of \<open>pylib\<close>, used to run the functions above on concrete
  inputs. It covers JSON text with integer numbers and ASCII strings without
  \<^verbatim>\<open>\u\<close> escapes; \<^verbatim>\<open>json.dumps\<close> writes \<^verbatim>\<open>", "\<close> and \<^verbatim>\<open>": "\<close> between items and after keys as
  Python does. The messages of the interpreter's exceptions follow CPython 3.12 where
  they depend only on the type of the operand, and are shortened to the name of the
  exception class elsewhere.
\<close>

definition digit_char :: "nat \<Rightarrow> char" where
  "digit_char n = ''0123456789'' ! n"

fun dec_nat :: "nat \<Rightarrow> string" where
  "dec_nat n = (if n < 10 then [digit_char n] else dec_nat (n div 10) @ [digit_char (n mod 10)])"

definition dec_int :: "int \<Rightarrow> string" where
  "dec_int i = (if i < 0 then CHR ''-'' # dec_nat (nat (- i)) else dec_nat (nat i))"

definition dq :: char where
  "dq = CHR 0x22"

definition bs :: char where
  "bs = CHR 0x5C"

fun json_escape :: "string \<Rightarrow> string" where
  "json_escape [] = []"
| "json_escape (c # cs) =
     (if c = dq then bs # dq # json_escape cs
      else if c = bs then bs # bs # json_escape cs
      else if c = CHR 0x0A then bs # CHR ''n'' # json_escape cs
      else if c = CHR 0x0D then bs # CHR ''r'' # json_escape cs
      else if c = CHR 0x09 then bs # CHR ''t'' # json_escape cs
      else c # json_escape cs)"

definition json_quote :: "string \<Rightarrow> string" where
  "json_quote s = dq # json_escape s @ [dq]"

fun join :: "string \<Rightarrow> string list \<Rightarrow> string" where
  "join sep [] = []"
| "join sep [x] = x"
| "join sep (x # y # ys) = x @ sep @ join sep (y # ys)"

fun json_dumps :: "json \<Rightarrow> string" where
  "json_dumps JNull = ''null''"
| "json_dumps (JBool b) = (if b then ''true'' else ''false'')"
| "json_dumps (JNum n) = dec_int n"
| "json_dumps (JStr s) = json_quote s"
| "json_dumps (JArr xs) = ''['' @ join '', '' (map json_dumps xs) @ '']''"
| "json_dumps (JObj kvs) =
     ''{'' @ join '', '' (map (\<lambda>(k, v). json_quote k @ '': '' @ json_dumps v) kvs) @ ''}''"

fun json_dumps_ind :: "nat \<Rightarrow> json \<Rightarrow> string" where
  "json_dumps_ind n (JArr xs) =
     (if xs = [] then ''[]''
      else ''['' @ nl @ join ('','' @ nl) (map (\<lambda>x. replicate (n + 2) CHR '' '' @ json_dumps_ind (n + 2) x) xs)
           @ nl @ replicate n CHR '' '' @ '']'')"
| "json_dumps_ind n (JObj kvs) =
     (if kvs = [] then ''{}''
      else ''{'' @ nl @ join ('','' @ nl)
              (map (\<lambda>(k, v). replicate (n + 2) CHR '' '' @ json_quote k @ '': '' @ json_dumps_ind (n + 2) v) kvs)
           @ nl @ replicate n CHR '' '' @ ''}'')"
| "json_dumps_ind n v = json_dumps v"

definition json_ws :: "char \<Rightarrow> bool" where
  "json_ws c = (c \<in> set [CHR 0x20, CHR 0x09, CHR 0x0A, CHR 0x0D])"

definition skip_ws :: "string \<Rightarrow> string" where
  "skip_ws s = dropWhile json_ws s"

definition is_digit :: "char \<Rightarrow> bool" where
  "is_digit c = (48 \<le> (of_char c :: nat) \<and> (of_char c :: nat) \<le> 57)"

definition digits_value :: "string \<Rightarrow> nat" where
  "digits_value ds = foldl (\<lambda>a d. 10 * a + (of_char d - 48)) 0 ds"

definition unescape :: "char \<Rightarrow> char option" where
  "unescape e =
     (if e = dq \<or> e = bs \<or> e = CHR ''/'' then Some e
      else if e = CHR ''n'' then Some (CHR 0x0A)
      else if e = CHR ''r'' then Some (CHR 0x0D)
      else if e = CHR ''t'' then Some (CHR 0x09)
      else if e = CHR ''b'' then Some (CHR 0x08)
      else if e = CHR ''f'' then Some (CHR 0x0C)
      else None)"

fun parse_string :: "string \<Rightarrow> (string \<times> string) option" where
  "parse_string [] = None"
| "parse_string [c] = (if c = dq then Some ([], []) else None)"
| "parse_string (c # e # cs) =
     (if c = dq then Some ([], e # cs)
      else if c = bs then
        (case unescape e of
           None \<Rightarrow> None
         | Some ch \<Rightarrow> map_option (\<lambda>(s, rest). (ch # s, rest)) (parse_string cs))
      else if (of_char c :: nat) < 32 then None
      else map_option (\<lambda>(s, rest). (c # s, rest)) (parse_string (e # cs)))"

definition parse_number :: "string \<Rightarrow> (json \<times> string) option" where
  "parse_number s =
     (let neg = (s \<noteq> [] \<and> hd s = CHR ''-'');
          r = (if neg then tl s else s);
          ds = takeWhile is_digit r;
          rest = dropWhile is_digit r
      in if ds = [] \<or> (1 < length ds \<and> hd ds = CHR ''0'')
            \<or> (rest \<noteq> [] \<and> hd rest \<in> set ''.eE'') then None
         else Some (JNum (if neg then - int (digits_value ds) else int (digits_value ds)), rest))"

text \<open>The next character after white space must be \<open>c\<close>; the text after it.\<close>

definition expect :: "char \<Rightarrow> string \<Rightarrow> string option" where
  "expect c s = (case skip_ws s of [] \<Rightarrow> None | x # r \<Rightarrow> if x = c then Some r else None)"

fun parse_value :: "nat \<Rightarrow> string \<Rightarrow> (json \<times> string) option"
  and parse_elements :: "nat \<Rightarrow> string \<Rightarrow> (json list \<times> string) option"
  and parse_members :: "nat \<Rightarrow> string \<Rightarrow> ((string \<times> json) list \<times> string) option" where
  "parse_value 0 s = None"
| "parse_value (Suc n) s =
     (case skip_ws s of
        [] \<Rightarrow> None
      | c # cs \<Rightarrow>
          if c = CHR ''{'' then
            (case expect (CHR ''}'') cs of
               Some r \<Rightarrow> Some (JObj [], r)
             | None \<Rightarrow> map_option (\<lambda>(kvs, r). (JObj (foldl (\<lambda>d (k, v). dict_set d k v) [] kvs), r))
                         (parse_members n cs))
          else if c = CHR ''['' then
            (case expect (CHR '']'') cs of
               Some r \<Rightarrow> Some (JArr [], r)
             | None \<Rightarrow> map_option (\<lambda>(vs, r). (JArr vs, r)) (parse_elements n cs))
          else if c = dq then map_option (\<lambda>(t, r). (JStr t, r)) (parse_string cs)
          else if startswith (c # cs) ''true'' then Some (JBool True, drop 4 (c # cs))
          else if startswith (c # cs) ''false'' then Some (JBool False, drop 5 (c # cs))
          else if startswith (c # cs) ''null'' then Some (JNull, drop 4 (c # cs))
          else parse_number (c # cs))"
| "parse_elements 0 s = None"
| "parse_elements (Suc n) s =
     (case parse_value n s of
        None \<Rightarrow> None
      | Some (v, r) \<Rightarrow>
          (case expect (CHR '','') r of
             Some r' \<Rightarrow> map_option (\<lambda>(vs, r''). (v # vs, r'')) (parse_elements n r')
           | None \<Rightarrow> map_option (\<lambda>r'. ([v], r')) (expect (CHR '']'') r)))"
| "parse_members 0 s = None"
| "parse_members (Suc n) s =
     (case expect dq s of
        None \<Rightarrow> None
      | Some s1 \<Rightarrow>
          (case parse_string s1 of
             None \<Rightarrow> None
           | Some (k, s2) \<Rightarrow>
               (case expect (CHR '':'') s2 of
                  None \<Rightarrow> None
                | Some s3 \<Rightarrow>
                    (case parse_value n s3 of
                       None \<Rightarrow> None
                     | Some (v, r) \<Rightarrow>
                         (case expect (CHR '','') r of
                            Some r' \<Rightarrow> map_option (\<lambda>(kvs, r''). ((k, v) # kvs, r'')) (parse_members n r')
                          | None \<Rightarrow> map_option (\<lambda>r'. ([(k, v)], r')) (expect (CHR ''}'') r))))))"

definition json_loads :: "string \<Rightarrow> json option" where
  "json_loads s =
     (case parse_value (Suc (length s)) s of
        None \<Rightarrow> None
      | Some (v, rest) \<Rightarrow> if skip_ws rest = [] then Some v else None)"

definition sq :: char where
  "sq = CHR 0x27"

fun py_repr :: "json \<Rightarrow> string" where
  "py_repr JNull = ''None''"
| "py_repr (JBool b) = (if b then ''True'' else ''False'')"
| "py_repr (JNum n) = dec_int n"
| "py_repr (JStr s) = sq # s @ [sq]"
| "py_repr (JArr xs) = ''['' @ join '', '' (map py_repr xs) @ '']''"
| "py_repr (JObj kvs) =
     ''{'' @ join '', '' (map (\<lambda>(k, v). sq # k @ [sq] @ '': '' @ py_repr v) kvs) @ ''}''"

fun py_type_name :: "json \<Rightarrow> string" where
  "py_type_name JNull = ''NoneType''"
| "py_type_name (JBool b) = ''bool''"
| "py_type_name (JNum n) = ''int''"
| "py_type_name (JStr s) = ''str''"
| "py_type_name (JArr xs) = ''list''"
| "py_type_name (JObj kvs) = ''dict''"

fun reference_exc_text :: "py_exc \<Rightarrow> string" where
  "reference_exc_text (TypeError op v) =
     (if op = ''len'' then ''object of type '' @ [sq] @ py_type_name v @ [sq] @ '' has no len()''
      else if op = ''in'' then ''argument of type '' @ [sq] @ py_type_name v @ [sq] @ '' is not iterable''
      else if op = ''hash'' then ''unhashable type: '' @ [sq] @ py_type_name v @ [sq]
      else if op = ''loads'' then
        ''the JSON object must be str, bytes or bytearray, not '' @ py_type_name v
      else ''TypeError'')"
| "reference_exc_text (AttributeError a v) =
     [sq] @ py_type_name v @ [sq] @ '' object has no attribute '' @ [sq] @ a @ [sq]"
| "reference_exc_text (KeyError k) = [sq] @ k @ [sq]"
| "reference_exc_text (JSONDecodeError s) = ''JSONDecodeError''"
| "reference_exc_text (DecodeError s) = ''DecodeError''"
| "reference_exc_text (HTTPError m) = m"
| "reference_exc_text (Raised m) = m"

text \<open>Base64 with the standard alphabet; the decoded bytes must be ASCII.\<close>

definition b64_index :: "char \<Rightarrow> nat option" where
  "b64_index c =
     (let n = (of_char c :: nat)
      in if 65 \<le> n \<and> n \<le> 90 then Some (n - 65)
         else if 97 \<le> n \<and> n \<le> 122 then Some (n - 71)
         else if 48 \<le> n \<and> n \<le> 57 then Some (n + 4)
         else if c = CHR ''+'' then Some 62
         else if c = CHR ''/'' then Some 63
         else None)"

definition b64_bytes :: "nat \<Rightarrow> nat option list \<Rightarrow> string option" where
  "b64_bytes k idx =
     (if None \<in> set idx then None
      else (let v = foldl (\<lambda>a i. 64 * a + the i) 0 idx;
                w = v * 64 ^ (4 - length idx);
                bytes = take k [w div 65536, (w div 256) mod 256, w mod 256]
            in if \<forall>b \<in> set bytes. b < 128 then Some (map char_of bytes) else None))"

fun b64_groups :: "string \<Rightarrow> string option" where
  "b64_groups (a # b # c # d # rest) =
     (if rest = [] \<and> c = CHR ''='' \<and> d = CHR ''='' then b64_bytes 1 [b64_index a, b64_index b]
      else if rest = [] \<and> d = CHR ''='' then b64_bytes 2 [b64_index a, b64_index b, b64_index c]
      else (case b64_bytes 3 [b64_index a, b64_index b, b64_index c, b64_index d] of
              None \<Rightarrow> None
            | Some x \<Rightarrow> map_option (\<lambda>y. x @ y) (b64_groups rest)))"
| "b64_groups [] = Some []"
| "b64_groups s = None"

definition reference_status_error :: "http_response \<Rightarrow> string option" where
  "reference_status_error r =
     (if 200 \<le> status_code r \<and> status_code r < 300 then None
      else Some (''HTTP status '' @ dec_int (status_code r)))"

definition reference_lib :: pylib where
  "reference_lib =
     \<lparr> loads = json_loads,
       dumps = json_dumps,
       dumps_indent2 = json_dumps_ind 0,
       str_of = py_repr,
       exc_text = reference_exc_text,
       b64decode_str = b64_groups,
       status_error = reference_status_error \<rparr>"

section \<open>Collaborators for concrete runs\<close>

text \<open>
  A server that answers every request with the same response, one whose every post
  raises, and the two response shapes the client tells apart by their content type.
\<close>

definition fixed_server :: "http_response \<Rightarrow> server" where
  "fixed_server r = (\<lambda>requests. Inr r)"

definition failing_server :: "py_exc \<Rightarrow> server" where
  "failing_server e = (\<lambda>requests. Inl e)"

definition json_response :: "string \<Rightarrow> http_response" where
  "json_response t =
     \<lparr> status_code = 200, mcp_session_id = None, content_type = Some ''application/json'',
       response_text = t \<rparr>"


text \<open>
  Two answers to the handshake, both carrying a session id: one accepts it, one reports
  a JSON-RPC error.
\<close>

definition accepting_response :: http_response where
  \<open>accepting_response =
     \<lparr> status_code = 200, mcp_session_id = Some ''abc123'',
       content_type = Some ''application/json'',
       response_text = ''{"jsonrpc": "2.0", "result": {}, "id": 0}'' \<rparr>\<close>

definition rejecting_response :: http_response where
  \<open>rejecting_response =
     \<lparr> status_code = 200, mcp_session_id = Some ''abc123'',
       content_type = Some ''application/json'',
       response_text = ''{"jsonrpc": "2.0", "error": {"message": "unsupported protocol version"}, "id": 0}'' \<rparr>\<close>

text \<open>
  Two callables for the responder: \<^verbatim>\<open>def echo(x): return x\<close>, and one that raises
  \<^verbatim>\<open>Exception("boom")\<close> whatever it is given.
\<close>

definition echo :: tool where
  "echo kwargs =
     (case kwargs of
        [(k, v)] \<Rightarrow> if k = ''x'' then Inr v else Inl (TypeError ''kwargs'' (JObj kwargs))
      | _ \<Rightarrow> Inl (TypeError ''kwargs'' (JObj kwargs)))"

definition boom :: tool where
  "boom kwargs = Inl (Raised ''boom'')"

text \<open>A run of \<^verbatim>\<open>call_tool\<close> invocations on one client, one after the other.\<close>

fun call_tool_seq :: "pylib \<Rightarrow> server \<Rightarrow> mcp_client \<Rightarrow> (string \<times> json) list \<Rightarrow> mcp_client" where
  "call_tool_seq L srv c [] = c"
| "call_tool_seq L srv c ((tool_name, arguments) # calls) =
     call_tool_seq L srv (snd (call_tool L srv c tool_name arguments)) calls"

text \<open>The ids of the \<^verbatim>\<open>tools/call\<close> requests among the requests sent, in the order sent.\<close>

definition tool_call_id :: "http_request \<Rightarrow> int option" where
  "tool_call_id req =
     (case payload req of
        JObj p \<Rightarrow>
          (if map_of p ''method'' = Some (JStr ''tools/call'') then
             (case map_of p ''id'' of Some (JNum i) \<Rightarrow> Some i | _ \<Rightarrow> None)
           else None)
      | _ \<Rightarrow> None)"

definition tool_call_ids :: "http_request list \<Rightarrow> int list" where
  "tool_call_ids requests = List.map_filter tool_call_id requests"

text \<open>
  Two model stubs: one that requests the same tool calls on every reply, and one that
  requests a tool call while the message sequence has fewer than \<open>n\<close> entries and then
  answers.
\<close>

definition always_calls :: "tool_call list \<Rightarrow> llm" where
  "always_calls tcs = (\<lambda>messages. Inr \<lparr> msg_content = JNull, msg_tool_calls = tcs \<rparr>)"



section \<open>The Lambda responder: properties\<close>

text \<open>What \<open>handle\<close> does once the body of the event has parsed to a JSON object.\<close>

lemma handle_request:
  assumes "event_body L event = Inr (JStr s)" and "loads L s = Some (JObj request)"
  shows "handle L tools event =
     (let method = dict_get request ''method''; req_id = dict_get request ''id''
      in if method = JStr ''tools/list'' then
           Inr (server_response L req_id
                  (JObj [(''tools'', JArr (map (\<lambda>k. JObj [(''name'', JStr k)]) (map fst tools)))]))
         else if method = JStr ''tools/call'' then handle_tools_call L tools request req_id
         else Inr (server_error L req_id (''Unknown method: '' @ py_format L method)))"
  using assms by (simp add: handle_def)

text \<open>
  Claim C9 as stated fails for two kinds of parseable \<^verbatim>\<open>tools/call\<close> requests, both
  outside the only \<^verbatim>\<open>try\<close> of \<open>handle\<close>: when the name is a list (or an object),
  \<^verbatim>\<open>name not in self.tools\<close> raises \<^verbatim>\<open>TypeError\<close> because the name cannot be hashed; when the
  params are no object, \<^verbatim>\<open>params.get\<close> raises \<^verbatim>\<open>AttributeError\<close>. In both cases \<open>handle\<close>
  returns no envelope.
\<close>

theorem handle_raises_on_unhashable_name:
  \<open>handle reference_lib [(''echo'', echo)]
      [(''body'', JStr ''{"jsonrpc": "2.0", "method": "tools/call", "params": {"name": ["nope"]}, "id": 1}'')]
    = Inl (TypeError ''hash'' (JArr [JStr ''nope'']))
   \<and> handle reference_lib [(''echo'', echo)]
      [(''body'', JStr ''{"jsonrpc": "2.0", "method": "tools/call", "params": null, "id": 2}'')]
    = Inl (AttributeError ''get'' JNull)\<close>
  by code_simp

text \<open>
  Claim C9, amended. For an event whose body parses to a JSON object: (1) a
  \<^verbatim>\<open>tools/call\<close> request whose params are an object (or absent) and whose name is neither a
  list nor an object and is no key of the registry gets a status 200 envelope whose body
  is the JSON-RPC error \<^verbatim>\<open>Unknown tool: <name>\<close> with the id of the request, the name
  formatted as \<^verbatim>\<open>str()\<close> does (a string name as it is); (2) a method other than
  \<^verbatim>\<open>tools/list\<close> and \<^verbatim>\<open>tools/call\<close> gets a status 200 envelope with the error
  \<^verbatim>\<open>Unknown method: <method>\<close>; (3) when the registered callable raises, the message of its
  exception is the error of a status 200 envelope; (4) a \<^verbatim>\<open>tools/call\<close> request whose
  params are no object raises \<^verbatim>\<open>AttributeError\<close>, and (5) one whose name is a list or an
  object raises \<^verbatim>\<open>TypeError\<close>: \<open>handle\<close> returns no envelope for these two.
\<close>

theorem handle_reports_errors_in_envelope:
  assumes "event_body L event = Inr (JStr s)" and "loads L s = Some (JObj request)"
  shows "(\<forall>params.
            dict_get request ''method'' = JStr ''tools/call'' \<longrightarrow>
            dict_get_default request ''params'' (JObj []) = JObj params \<longrightarrow>
            (\<forall>xs. dict_get params ''name'' \<noteq> JArr xs) \<longrightarrow>
            (\<forall>kvs. dict_get params ''name'' \<noteq> JObj kvs) \<longrightarrow>
            (\<forall>n. dict_get params ''name'' = JStr n \<longrightarrow> map_of tools n = None) \<longrightarrow>
            handle L tools event =
              Inr \<lparr> statusCode = 200,
                    headers = [(''Content-Type'', ''application/json'')],
                    body = dumps L (JObj [(''jsonrpc'', JStr ''2.0''),
                                          (''error'', JObj [(''message'',
                                              JStr (''Unknown tool: '' @ py_format L (dict_get params ''name'')))]),
                                          (''id'', dict_get request ''id'')]) \<rparr>)
       \<and> (dict_get request ''method'' \<noteq> JStr ''tools/list'' \<longrightarrow>
          dict_get request ''method'' \<noteq> JStr ''tools/call'' \<longrightarrow>
            handle L tools event =
              Inr \<lparr> statusCode = 200,
                    headers = [(''Content-Type'', ''application/json'')],
                    body = dumps L (JObj [(''jsonrpc'', JStr ''2.0''),
                                          (''error'', JObj [(''message'',
                                              JStr (''Unknown method: '' @ py_format L (dict_get request ''method'')))]),
                                          (''id'', dict_get request ''id'')]) \<rparr>)
       \<and> (\<forall>params n fn kwargs e.
            dict_get request ''method'' = JStr ''tools/call'' \<longrightarrow>
            dict_get_default request ''params'' (JObj []) = JObj params \<longrightarrow>
            dict_get params ''name'' = JStr n \<longrightarrow>
            map_of tools n = Some fn \<longrightarrow>
            dict_get_default params ''arguments'' (JObj []) = JObj kwargs \<longrightarrow>
            fn kwargs = Inl e \<longrightarrow>
            handle L tools event =
              Inr \<lparr> statusCode = 200,
                    headers = [(''Content-Type'', ''application/json'')],
                    body = dumps L (JObj [(''jsonrpc'', JStr ''2.0''),
                                          (''error'', JObj [(''message'', JStr (str_exc L e))]),
                                          (''id'', dict_get request ''id'')]) \<rparr>)
       \<and> (dict_get request ''method'' = JStr ''tools/call'' \<longrightarrow>
          (\<forall>params. dict_get_default request ''params'' (JObj []) \<noteq> JObj params) \<longrightarrow>
            handle L tools event
              = Inl (AttributeError ''get'' (dict_get_default request ''params'' (JObj []))))
       \<and> (\<forall>params.
            dict_get request ''method'' = JStr ''tools/call'' \<longrightarrow>
            dict_get_default request ''params'' (JObj []) = JObj params \<longrightarrow>
            ((\<exists>xs. dict_get params ''name'' = JArr xs) \<or> (\<exists>kvs. dict_get params ''name'' = JObj kvs)) \<longrightarrow>
            handle L tools event = Inl (TypeError ''hash'' (dict_get params ''name'')))"
proof (intro conjI allI impI)
  note h = handle_request [OF assms]
  {
    fix params
    assume m: "dict_get request ''method'' = JStr ''tools/call''"
      and p: "dict_get_default request ''params'' (JObj []) = JObj params"
      and a: "\<forall>xs. dict_get params ''name'' \<noteq> JArr xs"
      and o: "\<forall>kvs. dict_get params ''name'' \<noteq> JObj kvs"
      and u: "\<forall>n. dict_get params ''name'' = JStr n \<longrightarrow> map_of tools n = None"
    have "tool_lookup tools (dict_get params ''name'') = Inr None"
      using a o u by (cases "dict_get params ''name''") simp_all
    then show "handle L tools event =
              Inr \<lparr> statusCode = 200,
                    headers = [(''Content-Type'', ''application/json'')],
                    body = dumps L (JObj [(''jsonrpc'', JStr ''2.0''),
                                          (''error'', JObj [(''message'',
                                              JStr (''Unknown tool: '' @ py_format L (dict_get params ''name'')))]),
                                          (''id'', dict_get request ''id'')]) \<rparr>"
      using m p by (simp add: h handle_tools_call_def server_error_def)
  next
    assume "dict_get request ''method'' \<noteq> JStr ''tools/list''"
      "dict_get request ''method'' \<noteq> JStr ''tools/call''"
    then show "handle L tools event =
              Inr \<lparr> statusCode = 200,
                    headers = [(''Content-Type'', ''application/json'')],
                    body = dumps L (JObj [(''jsonrpc'', JStr ''2.0''),
                                          (''error'', JObj [(''message'',
                                              JStr (''Unknown method: '' @ py_format L (dict_get request ''method'')))]),
                                          (''id'', dict_get request ''id'')]) \<rparr>"
      by (simp add: h server_error_def)
  next
    fix params n fn kwargs e
    assume "dict_get request ''method'' = JStr ''tools/call''"
      "dict_get_default request ''params'' (JObj []) = JObj params"
      "dict_get params ''name'' = JStr n" "map_of tools n = Some fn"
      "dict_get_default params ''arguments'' (JObj []) = JObj kwargs" "fn kwargs = Inl e"
    then show "handle L tools event =
              Inr \<lparr> statusCode = 200,
                    headers = [(''Content-Type'', ''application/json'')],
                    body = dumps L (JObj [(''jsonrpc'', JStr ''2.0''),
                                          (''error'', JObj [(''message'', JStr (str_exc L e))]),
                                          (''id'', dict_get request ''id'')]) \<rparr>"
      by (simp add: h handle_tools_call_def server_error_def)
  next
    assume m: "dict_get request ''method'' = JStr ''tools/call''"
      and np: "\<forall>params. dict_get_default request ''params'' (JObj []) \<noteq> JObj params"
    have "py_as_dict (dict_get_default request ''params'' (JObj []))
            = Inl (AttributeError ''get'' (dict_get_default request ''params'' (JObj [])))"
      using np by (cases "dict_get_default request ''params'' (JObj [])") simp_all
    then show "handle L tools event
              = Inl (AttributeError ''get'' (dict_get_default request ''params'' (JObj [])))"
      using m by (simp add: h handle_tools_call_def)
  next
    fix params
    assume m: "dict_get request ''method'' = JStr ''tools/call''"
      and p: "dict_get_default request ''params'' (JObj []) = JObj params"
      and l: "(\<exists>xs. dict_get params ''name'' = JArr xs) \<or> (\<exists>kvs. dict_get params ''name'' = JObj kvs)"
    have "tool_lookup tools (dict_get params ''name'') = Inl (TypeError ''hash'' (dict_get params ''name''))"
      using l by auto
    then show "handle L tools event = Inl (TypeError ''hash'' (dict_get params ''name''))"
      using m p by (simp add: h handle_tools_call_def)
  }
qed


text \<open>
  The cases of claim C9, amended, on the reference library, with the tools \<open>echo\<close> and
  \<open>boom\<close> registered: an unknown name, no name at all, an unknown method, a callable
  that raises, params that are \<^verbatim>\<open>null\<close>, and a name that is a list.
\<close>

theorem handle_reports_errors_in_envelope_witness:
  \<open>handle reference_lib [(''echo'', echo), (''boom'', boom)]
      [(''body'', JStr ''{"jsonrpc": "2.0", "method": "tools/call", "params": {"name": "nope", "arguments": {}}, "id": 7}'')]
    = Inr \<lparr> statusCode = 200, headers = [(''Content-Type'', ''application/json'')],
            body = ''{"jsonrpc": "2.0", "error": {"message": "Unknown tool: nope"}, "id": 7}'' \<rparr>
   \<and> handle reference_lib [(''echo'', echo), (''boom'', boom)]
      [(''body'', JStr ''{"jsonrpc": "2.0", "method": "tools/call", "id": 6}'')]
    = Inr \<lparr> statusCode = 200, headers = [(''Content-Type'', ''application/json'')],
            body = ''{"jsonrpc": "2.0", "error": {"message": "Unknown tool: None"}, "id": 6}'' \<rparr>
   \<and> handle reference_lib [(''echo'', echo), (''boom'', boom)]
      [(''body'', JStr ''{"jsonrpc": "2.0", "method": "resources/list", "id": 8}'')]
    = Inr \<lparr> statusCode = 200, headers = [(''Content-Type'', ''application/json'')],
            body = ''{"jsonrpc": "2.0", "error": {"message": "Unknown method: resources/list"}, "id": 8}'' \<rparr>
   \<and> handle reference_lib [(''echo'', echo), (''boom'', boom)]
      [(''body'', JStr ''{"jsonrpc": "2.0", "method": "tools/call", "params": {"name": "boom", "arguments": {}}, "id": 9}'')]
    = Inr \<lparr> statusCode = 200, headers = [(''Content-Type'', ''application/json'')],
            body = ''{"jsonrpc": "2.0", "error": {"message": "boom"}, "id": 9}'' \<rparr>
   \<and> handle reference_lib [(''echo'', echo), (''boom'', boom)]
      [(''body'', JStr ''{"jsonrpc": "2.0", "method": "tools/call", "params": null, "id": 2}'')]
    = Inl (AttributeError ''get'' JNull)
   \<and> handle reference_lib [(''echo'', echo), (''boom'', boom)]
      [(''body'', JStr ''{"jsonrpc": "2.0", "method": "tools/call", "params": {"name": ["nope"]}, "id": 1}'')]
    = Inl (TypeError ''hash'' (JArr [JStr ''nope'']))\<close>
proof -
  let ?tools = "[(''echo'', echo), (''boom'', boom)]"
  let ?L = reference_lib
  note th = handle_reports_errors_in_envelope [where L = ?L and tools = ?tools]

  let ?s1 = \<open>''{"jsonrpc": "2.0", "method": "tools/call", "params": {"name": "nope", "arguments": {}}, "id": 7}''\<close>
  let ?p1 = "[(''name'', JStr ''nope''), (''arguments'', JObj [])]"
  let ?r1 = "[(''jsonrpc'', JStr ''2.0''), (''method'', JStr ''tools/call''), (''params'', JObj ?p1), (''id'', JNum 7)]"
  have e1: "event_body ?L [(''body'', JStr ?s1)] = Inr (JStr ?s1)" by code_simp
  have l1: "loads ?L ?s1 = Some (JObj ?r1)" by code_simp
  have m1: "dict_get ?r1 ''method'' = JStr ''tools/call''" by code_simp
  have p1: "dict_get_default ?r1 ''params'' (JObj []) = JObj ?p1" by code_simp
  have n1: "dict_get ?p1 ''name'' = JStr ''nope''" by code_simp
  have a1: "\<forall>xs. dict_get ?p1 ''name'' \<noteq> JArr xs" by (simp add: n1)
  have b1: "\<forall>kvs. dict_get ?p1 ''name'' \<noteq> JObj kvs" by (simp add: n1)
  have u1: "\<forall>n. dict_get ?p1 ''name'' = JStr n \<longrightarrow> map_of ?tools n = None" by (simp add: n1)
  have i1: "dict_get ?r1 ''id'' = JNum 7" by code_simp
  have o1: \<open>dumps ?L (JObj [(''jsonrpc'', JStr ''2.0''),
                (''error'', JObj [(''message'', JStr (''Unknown tool: '' @ py_format ?L (JStr ''nope'')))]),
                (''id'', JNum 7)])
            = ''{"jsonrpc": "2.0", "error": {"message": "Unknown tool: nope"}, "id": 7}''\<close>
    by code_simp
  note t1 = th [OF e1 l1, THEN conjunct1, THEN spec, THEN mp, OF m1, THEN mp, OF p1, THEN mp, OF a1,
      THEN mp, OF b1, THEN mp, OF u1, unfolded n1 i1 o1]

  let ?s0 = \<open>''{"jsonrpc": "2.0", "method": "tools/call", "id": 6}''\<close>
  let ?r0 = "[(''jsonrpc'', JStr ''2.0''), (''method'', JStr ''tools/call''), (''id'', JNum 6)]"
  have e0: "event_body ?L [(''body'', JStr ?s0)] = Inr (JStr ?s0)" by code_simp
  have l0: "loads ?L ?s0 = Some (JObj ?r0)" by code_simp
  have m0: "dict_get ?r0 ''method'' = JStr ''tools/call''" by code_simp
  have p0: "dict_get_default ?r0 ''params'' (JObj []) = JObj []" by code_simp
  have n0: "dict_get [] ''name'' = JNull" by code_simp
  have a0: "\<forall>xs. dict_get [] ''name'' \<noteq> JArr xs" by (simp add: n0)
  have b0: "\<forall>kvs. dict_get [] ''name'' \<noteq> JObj kvs" by (simp add: n0)
  have u0: "\<forall>n. dict_get [] ''name'' = JStr n \<longrightarrow> map_of ?tools n = None" by (simp add: n0)
  have i0: "dict_get ?r0 ''id'' = JNum 6" by code_simp
  have o0: \<open>dumps ?L (JObj [(''jsonrpc'', JStr ''2.0''),
                (''error'', JObj [(''message'', JStr (''Unknown tool: '' @ py_format ?L JNull))]),
                (''id'', JNum 6)])
            = ''{"jsonrpc": "2.0", "error": {"message": "Unknown tool: None"}, "id": 6}''\<close>
    by code_simp
  note t0 = th [OF e0 l0, THEN conjunct1, THEN spec, THEN mp, OF m0, THEN mp, OF p0, THEN mp, OF a0,
      THEN mp, OF b0, THEN mp, OF u0, unfolded n0 i0 o0]

  let ?s2 = \<open>''{"jsonrpc": "2.0", "method": "resources/list", "id": 8}''\<close>
  let ?r2 = "[(''jsonrpc'', JStr ''2.0''), (''method'', JStr ''resources/list''), (''id'', JNum 8)]"
  have e2: "event_body ?L [(''body'', JStr ?s2)] = Inr (JStr ?s2)" by code_simp
  have l2: "loads ?L ?s2 = Some (JObj ?r2)" by code_simp
  have m2: "dict_get ?r2 ''method'' = JStr ''resources/list''" by code_simp
  have x2: "dict_get ?r2 ''method'' \<noteq> JStr ''tools/list''" by (simp add: m2)
  have y2: "dict_get ?r2 ''method'' \<noteq> JStr ''tools/call''" by (simp add: m2)
  have i2: "dict_get ?r2 ''id'' = JNum 8" by code_simp
  have o2: \<open>dumps ?L (JObj [(''jsonrpc'', JStr ''2.0''),
                (''error'', JObj [(''message'', JStr (''Unknown method: '' @ py_format ?L (JStr ''resources/list'')))]),
                (''id'', JNum 8)])
            = ''{"jsonrpc": "2.0", "error": {"message": "Unknown method: resources/list"}, "id": 8}''\<close>
    by code_simp
  note t2 = th [OF e2 l2, THEN conjunct2, THEN conjunct1, THEN mp, OF x2, THEN mp, OF y2,
      unfolded m2 i2 o2]

  let ?s3 = \<open>''{"jsonrpc": "2.0", "method": "tools/call", "params": {"name": "boom", "arguments": {}}, "id": 9}''\<close>
  let ?p3 = "[(''name'', JStr ''boom''), (''arguments'', JObj [])]"
  let ?r3 = "[(''jsonrpc'', JStr ''2.0''), (''method'', JStr ''tools/call''), (''params'', JObj ?p3), (''id'', JNum 9)]"
  have e3: "event_body ?L [(''body'', JStr ?s3)] = Inr (JStr ?s3)" by code_simp
  have l3: "loads ?L ?s3 = Some (JObj ?r3)" by code_simp
  have m3: "dict_get ?r3 ''method'' = JStr ''tools/call''" by code_simp
  have p3: "dict_get_default ?r3 ''params'' (JObj []) = JObj ?p3" by code_simp
  have n3: "dict_get ?p3 ''name'' = JStr ''boom''" by code_simp
  have d3: "map_of ?tools ''boom'' = Some boom" by simp
  have f3: "dict_get_default ?p3 ''arguments'' (JObj []) = JObj []" by code_simp
  have g3: "boom [] = Inl (Raised ''boom'')" by (simp add: boom_def)
  have i3: "dict_get ?r3 ''id'' = JNum 9" by code_simp
  have o3: \<open>dumps ?L (JObj [(''jsonrpc'', JStr ''2.0''),
                (''error'', JObj [(''message'', JStr (str_exc ?L (Raised ''boom'')))]), (''id'', JNum 9)])
            = ''{"jsonrpc": "2.0", "error": {"message": "boom"}, "id": 9}''\<close>
    by code_simp
  note t3 = th [OF e3 l3, THEN conjunct2, THEN conjunct2, THEN conjunct1, rule_format,
      OF m3 p3 n3 d3 f3 g3, unfolded i3 o3]

  let ?s4 = \<open>''{"jsonrpc": "2.0", "method": "tools/call", "params": null, "id": 2}''\<close>
  let ?r4 = "[(''jsonrpc'', JStr ''2.0''), (''method'', JStr ''tools/call''), (''params'', JNull), (''id'', JNum 2)]"
  have e4: "event_body ?L [(''body'', JStr ?s4)] = Inr (JStr ?s4)" by code_simp
  have l4: "loads ?L ?s4 = Some (JObj ?r4)" by code_simp
  have m4: "dict_get ?r4 ''method'' = JStr ''tools/call''" by code_simp
  have p4: "dict_get_default ?r4 ''params'' (JObj []) = JNull" by code_simp
  have q4: "\<forall>params. dict_get_default ?r4 ''params'' (JObj []) \<noteq> JObj params" by (simp add: p4)
  note t4 = th [OF e4 l4, THEN conjunct2, THEN conjunct2, THEN conjunct2, THEN conjunct1,
      THEN mp, OF m4, THEN mp, OF q4, unfolded p4]

  let ?s5 = \<open>''{"jsonrpc": "2.0", "method": "tools/call", "params": {"name": ["nope"]}, "id": 1}''\<close>
  let ?p5 = "[(''name'', JArr [JStr ''nope''])]"
  let ?r5 = "[(''jsonrpc'', JStr ''2.0''), (''method'', JStr ''tools/call''), (''params'', JObj ?p5), (''id'', JNum 1)]"
  have e5: "event_body ?L [(''body'', JStr ?s5)] = Inr (JStr ?s5)" by code_simp
  have l5: "loads ?L ?s5 = Some (JObj ?r5)" by code_simp
  have m5: "dict_get ?r5 ''method'' = JStr ''tools/call''" by code_simp
  have p5: "dict_get_default ?r5 ''params'' (JObj []) = JObj ?p5" by code_simp
  have n5: "dict_get ?p5 ''name'' = JArr [JStr ''nope'']" by code_simp
  have q5: "(\<exists>xs. dict_get ?p5 ''name'' = JArr xs) \<or> (\<exists>kvs. dict_get ?p5 ''name'' = JObj kvs)"
    by (simp add: n5)
  note t5 = th [OF e5 l5, THEN conjunct2, THEN conjunct2, THEN conjunct2, THEN conjunct2,
      THEN spec, THEN mp, OF m5, THEN mp, OF p5, THEN mp, OF q5, unfolded n5]

  show ?thesis
    by (intro conjI) (rule t1 t0 t2 t3 t4 t5)+
qed

text \<open>
  Claim C1 as stated fails: the responder puts the value the callable returned into the
  envelope as it is. With \<open>echo\<close> registered and the arguments \<^verbatim>\<open>{"x": "hi"}\<close>, the body
  is the envelope whose \<^verbatim>\<open>result\<close> is the string \<^verbatim>\<open>"hi"\<close>; parsed back, that result has no
  \<^verbatim>\<open>content\<close> list and so no \<^verbatim>\<open>content[0].text\<close>.
\<close>

theorem echo_result_has_no_content_list:
  \<open>handle reference_lib [(''echo'', echo)]
      [(''body'', JStr ''{"jsonrpc": "2.0", "method": "tools/call", "params": {"name": "echo", "arguments": {"x": "hi"}}, "id": 1}'')]
    = Inr \<lparr> statusCode = 200, headers = [(''Content-Type'', ''application/json'')],
            body = ''{"jsonrpc": "2.0", "result": "hi", "id": 1}'' \<rparr>
   \<and> loads reference_lib ''{"jsonrpc": "2.0", "result": "hi", "id": 1}''
    = Some (JObj [(''jsonrpc'', JStr ''2.0''), (''result'', JStr ''hi''), (''id'', JNum 1)])
   \<and> first_content (JStr ''hi'') = None
   \<and> content_text (JStr ''hi'') = Inr None\<close>
  by code_simp

text \<open>
  Claim C1, amended. For a registered callable \<open>echo\<close> that returns its argument
  \<open>x\<close> unchanged, a \<^verbatim>\<open>tools/call\<close> request with the params
  \<^verbatim>\<open>{"name": "echo", "arguments": {"x": "hi"}}\<close> gets a status 200 envelope whose body,
  parsed as JSON, is the success envelope with the id of the request whose \<^verbatim>\<open>result\<close> is
  the string \<^verbatim>\<open>"hi"\<close> itself; the JSON branch of the client's \<^verbatim>\<open>call_tool\<close> reads
  \<^verbatim>\<open>"hi"\<close> from that envelope.
\<close>

theorem echo_round_trip:
  assumes "event_body L event = Inr (JStr s)"
    and "loads L s = Some (JObj request)"
    and "dict_get request ''method'' = JStr ''tools/call''"
    and "dict_get_default request ''params'' (JObj []) =
           JObj [(''name'', JStr ''echo''), (''arguments'', JObj [(''x'', JStr ''hi'')])]"
    and "map_of tools ''echo'' = Some fn"
    and "\<forall>v. fn [(''x'', v)] = Inr v"
    and "envelope = JObj [(''jsonrpc'', JStr ''2.0''), (''result'', JStr ''hi''), (''id'', dict_get request ''id'')]"
    and "loads L (dumps L envelope) = Some envelope"
  shows "\<exists>rsp. handle L tools event = Inr rsp
           \<and> statusCode rsp = 200
           \<and> loads L (body rsp) = Some envelope
           \<and> decode_json_result L envelope = Inr (JStr ''hi'')"
proof -
  have call: "handle L tools event = handle_tools_call L tools request (dict_get request ''id'')"
    using assms(3) by (simp add: handle_request [OF assms(1,2)])
  have "handle_tools_call L tools request (dict_get request ''id'') =
          Inr (server_response L (dict_get request ''id'') (JStr ''hi''))"
    using assms(4,5,6) by (simp add: handle_tools_call_def dict_get_def dict_get_default_def)
  with call have h: "handle L tools event = Inr (server_response L (dict_get request ''id'') (JStr ''hi''))"
    by simp
  have b: "body (server_response L (dict_get request ''id'') (JStr ''hi'')) = dumps L envelope"
    by (simp add: server_response_def assms(7))
  have d: "decode_json_result L envelope = Inr (JStr ''hi'')"
    by (simp add: assms(7) decode_json_result_def content_text_def first_content_def)
  show ?thesis
    using h b d assms(8) by (simp add: server_response_def)
qed

text \<open>Claim C1, amended, on the reference library with \<open>echo\<close> registered.\<close>

theorem echo_round_trip_witness:
  \<open>\<exists>rsp. handle reference_lib [(''echo'', echo)]
            [(''body'', JStr ''{"jsonrpc": "2.0", "method": "tools/call", "params": {"name": "echo", "arguments": {"x": "hi"}}, "id": 1}'')]
          = Inr rsp
        \<and> statusCode rsp = 200
        \<and> loads reference_lib (body rsp)
            = Some (JObj [(''jsonrpc'', JStr ''2.0''), (''result'', JStr ''hi''), (''id'', JNum 1)])
        \<and> decode_json_result reference_lib
             (JObj [(''jsonrpc'', JStr ''2.0''), (''result'', JStr ''hi''), (''id'', JNum 1)])
            = Inr (JStr ''hi'')\<close>
proof -
  let ?L = reference_lib
  let ?s = \<open>''{"jsonrpc": "2.0", "method": "tools/call", "params": {"name": "echo", "arguments": {"x": "hi"}}, "id": 1}''\<close>
  let ?r = "[(''jsonrpc'', JStr ''2.0''), (''method'', JStr ''tools/call''),
             (''params'', JObj [(''name'', JStr ''echo''), (''arguments'', JObj [(''x'', JStr ''hi'')])]),
             (''id'', JNum 1)]"
  let ?env = "JObj [(''jsonrpc'', JStr ''2.0''), (''result'', JStr ''hi''), (''id'', JNum 1)]"
  have e: "event_body ?L [(''body'', JStr ?s)] = Inr (JStr ?s)" by code_simp
  have l: "loads ?L ?s = Some (JObj ?r)" by code_simp
  have m: "dict_get ?r ''method'' = JStr ''tools/call''" by code_simp
  have p: "dict_get_default ?r ''params'' (JObj []) =
             JObj [(''name'', JStr ''echo''), (''arguments'', JObj [(''x'', JStr ''hi'')])]"
    by code_simp
  have t: "map_of [(''echo'', echo)] ''echo'' = Some echo" by simp
  have f: "\<forall>v. echo [(''x'', v)] = Inr v" by (simp add: echo_def)
  have i: "?env = JObj [(''jsonrpc'', JStr ''2.0''), (''result'', JStr ''hi''), (''id'', dict_get ?r ''id'')]"
    by code_simp
  have rt: "loads ?L (dumps ?L ?env) = Some ?env" by code_simp
  show ?thesis
    using echo_round_trip [OF e l m p t f i rt] .
qed

section \<open>Failures as values\<close>

text \<open>
  Claim C4 as stated fails for the responder: \<^verbatim>\<open>json.loads(body)\<close> stands outside every
  \<^verbatim>\<open>try\<close> of \<open>handle\<close>, so a body that is not JSON raises out of \<open>handle\<close>, and so does
  an event without a body (the default body is the empty string).
\<close>

theorem handle_raises_on_malformed_body:
  "handle reference_lib [(''echo'', echo)] [(''body'', JStr ''not json'')]
     = Inl (JSONDecodeError ''not json'')
   \<and> handle reference_lib [(''echo'', echo)] [] = Inl (JSONDecodeError '''')"
  by code_simp

text \<open>
  Claim C4, amended. The client's \<open>initialize\<close> and \<open>call_tool\<close> let no exception of
  their \<^verbatim>\<open>try\<close> bodies out: \<open>initialize\<close> returns \<open>False\<close>, \<open>call_tool\<close> returns the
  message prefixed \<^verbatim>\<open>Error calling tool: \<close> for an \<^verbatim>\<open>httpx.HTTPError\<close> and \<^verbatim>\<open>Error: \<close> for
  any other exception. The responder's \<open>handle\<close> returns a status 200 envelope for every
  event whose body parses to a JSON object, provided that for a \<^verbatim>\<open>tools/call\<close> the params
  are an object and the name is no list or object; when the body is not JSON it raises
  \<^verbatim>\<open>json.JSONDecodeError\<close> and returns no envelope.
\<close>

theorem failures_become_values:
  "(\<forall>e c'. initialize_try L srv c = (Inl e, c') \<longrightarrow> initialize L srv c = (False, c'))
   \<and> (\<forall>m c'. call_tool_try L srv c tool_name arguments = (Inl (HTTPError m), c') \<longrightarrow>
         call_tool L srv c tool_name arguments = (JStr (''Error calling tool: '' @ m), c'))
   \<and> (\<forall>e c'. call_tool_try L srv c tool_name arguments = (Inl e, c') \<longrightarrow>
         (\<forall>m. e \<noteq> HTTPError m) \<longrightarrow>
         call_tool L srv c tool_name arguments = (JStr (''Error: '' @ str_exc L e), c'))
   \<and> (\<forall>s request. event_body L event = Inr (JStr s) \<longrightarrow> loads L s = Some (JObj request) \<longrightarrow>
         (dict_get request ''method'' = JStr ''tools/call'' \<longrightarrow>
            (\<exists>params. dict_get_default request ''params'' (JObj []) = JObj params
               \<and> (\<forall>xs. dict_get params ''name'' \<noteq> JArr xs)
               \<and> (\<forall>kvs. dict_get params ''name'' \<noteq> JObj kvs))) \<longrightarrow>
         (\<exists>rsp. handle L tools event = Inr rsp \<and> statusCode rsp = 200))
   \<and> (\<forall>s. event_body L event = Inr (JStr s) \<longrightarrow> loads L s = None \<longrightarrow>
         handle L tools event = Inl (JSONDecodeError s))"
proof (intro conjI allI impI)
  fix e c' assume "initialize_try L srv c = (Inl e, c')"
  then show "initialize L srv c = (False, c')" by (simp add: initialize_def)
next
  fix m c' assume "call_tool_try L srv c tool_name arguments = (Inl (HTTPError m), c')"
  then show "call_tool L srv c tool_name arguments = (JStr (''Error calling tool: '' @ m), c')"
    by (simp add: call_tool_def)
next
  fix e c' assume "call_tool_try L srv c tool_name arguments = (Inl e, c')" and "\<forall>m. e \<noteq> HTTPError m"
  then show "call_tool L srv c tool_name arguments = (JStr (''Error: '' @ str_exc L e), c')"
    by (cases e) (simp_all add: call_tool_def)
next
  fix s request
  assume ev: "event_body L event = Inr (JStr s)" and ld: "loads L s = Some (JObj request)"
    and ok: "dict_get request ''method'' = JStr ''tools/call'' \<longrightarrow>
            (\<exists>params. dict_get_default request ''params'' (JObj []) = JObj params
               \<and> (\<forall>xs. dict_get params ''name'' \<noteq> JArr xs)
               \<and> (\<forall>kvs. dict_get params ''name'' \<noteq> JObj kvs))"
  show "\<exists>rsp. handle L tools event = Inr rsp \<and> statusCode rsp = 200"
  proof (cases "dict_get request ''method'' = JStr ''tools/call''")
    case False
    then show ?thesis
      by (simp add: handle_request [OF ev ld] server_response_def server_error_def Let_def)
  next
    case True
    with ok obtain params where p: "dict_get_default request ''params'' (JObj []) = JObj params"
      and n1: "\<forall>xs. dict_get params ''name'' \<noteq> JArr xs"
      and n2: "\<forall>kvs. dict_get params ''name'' \<noteq> JObj kvs" by blast
    have "\<exists>r. tool_lookup tools (dict_get params ''name'') = Inr r"
      using n1 n2 by (cases "dict_get params ''name''") simp_all
    then obtain r where r: "tool_lookup tools (dict_get params ''name'') = Inr r" ..
    have "\<exists>rsp. handle_tools_call L tools request (dict_get request ''id'') = Inr rsp \<and> statusCode rsp = 200"
      using p r
      by (auto simp: handle_tools_call_def server_response_def server_error_def
               split: option.splits sum.splits)
    with True show ?thesis
      by (simp add: handle_request [OF ev ld])
  qed
next
  fix s assume "event_body L event = Inr (JStr s)" and "loads L s = None"
  then show "handle L tools event = Inl (JSONDecodeError s)"
    by (simp add: handle_def)
qed


text \<open>
  Claim C4, amended, on the reference library: a server whose every post raises
  \<^verbatim>\<open>httpx.ConnectError\<close>, a server that answers with text that is not JSON, a request with
  an unknown method, and a body that is not JSON.
\<close>

theorem failures_become_values_witness:
  \<open>fst (initialize reference_lib (failing_server (HTTPError ''connection refused''))
          (mcp_client_init ''http://localhost:8000'')) = False
   \<and> fst (call_tool reference_lib (failing_server (HTTPError ''connection refused''))
          (mcp_client_init ''http://localhost:8000'') ''get_aws_news'' (JObj []))
       = JStr ''Error calling tool: connection refused''
   \<and> fst (call_tool reference_lib (fixed_server (json_response ''not json''))
          (mcp_client_init ''http://localhost:8000'') ''get_aws_news'' (JObj []))
       = JStr (''Error: '' @ str_exc reference_lib (JSONDecodeError ''not json''))
   \<and> (\<exists>rsp. handle reference_lib [(''echo'', echo)]
                [(''body'', JStr ''{"jsonrpc": "2.0", "method": "ping", "id": 3}'')] = Inr rsp
          \<and> statusCode rsp = 200)
   \<and> handle reference_lib [(''echo'', echo)] [(''body'', JStr ''not json'')]
       = Inl (JSONDecodeError ''not json'')\<close>
proof -
  let ?L = reference_lib
  let ?down = "failing_server (HTTPError ''connection refused'')"
  let ?c = "mcp_client_init ''http://localhost:8000''"
  let ?garbled = "fixed_server (json_response ''not json'')"
  let ?tools = "[(''echo'', echo)]"
  let ?s = \<open>''{"jsonrpc": "2.0", "method": "ping", "id": 3}''\<close>
  let ?r = "[(''jsonrpc'', JStr ''2.0''), (''method'', JStr ''ping''), (''id'', JNum 3)]"
  have a: "initialize_try ?L ?down ?c =
             (Inl (HTTPError ''connection refused''), snd (initialize_try ?L ?down ?c))"
    by code_simp
  have b: "call_tool_try ?L ?down ?c ''get_aws_news'' (JObj []) =
             (Inl (HTTPError ''connection refused''),
              snd (call_tool_try ?L ?down ?c ''get_aws_news'' (JObj [])))"
    by code_simp
  have d: "call_tool_try ?L ?garbled ?c ''get_aws_news'' (JObj []) =
             (Inl (JSONDecodeError ''not json''),
              snd (call_tool_try ?L ?garbled ?c ''get_aws_news'' (JObj [])))"
    by code_simp
  have d': "JSONDecodeError ''not json'' \<noteq> HTTPError m" for m by simp
  have e: "event_body ?L [(''body'', JStr ?s)] = Inr (JStr ?s)" by code_simp
  have l: "loads ?L ?s = Some (JObj ?r)" by code_simp
  have m: "dict_get ?r ''method'' = JStr ''tools/call'' \<longrightarrow>
            (\<exists>params. dict_get_default ?r ''params'' (JObj []) = JObj params
               \<and> (\<forall>xs. dict_get params ''name'' \<noteq> JArr xs)
               \<and> (\<forall>kvs. dict_get params ''name'' \<noteq> JObj kvs))"
    by (simp add: dict_get_def dict_get_default_def)
  have e2: "event_body ?L [(''body'', JStr ''not json'')] = Inr (JStr ''not json'')" by code_simp
  have l2: "loads ?L ''not json'' = None" by code_simp
  note th = failures_become_values
  have 1: "initialize ?L ?down ?c = (False, snd (initialize_try ?L ?down ?c))"
    using th [of ?L ?down ?c, THEN conjunct1, rule_format, OF a] .
  have 2: "call_tool ?L ?down ?c ''get_aws_news'' (JObj []) =
             (JStr (''Error calling tool: '' @ ''connection refused''),
              snd (call_tool_try ?L ?down ?c ''get_aws_news'' (JObj [])))"
    using th [of ?L ?down ?c, THEN conjunct2, THEN conjunct1, rule_format, OF b] .
  have 3: "call_tool ?L ?garbled ?c ''get_aws_news'' (JObj []) =
             (JStr (''Error: '' @ str_exc ?L (JSONDecodeError ''not json'')),
              snd (call_tool_try ?L ?garbled ?c ''get_aws_news'' (JObj [])))"
    using th [of ?L ?garbled ?c, THEN conjunct2, THEN conjunct2, THEN conjunct1, rule_format, OF d d'] .
  have 4: "\<exists>rsp. handle ?L ?tools [(''body'', JStr ?s)] = Inr rsp \<and> statusCode rsp = 200"
    using th [of ?L _ _ _ _ "[(''body'', JStr ?s)]" ?tools,
        THEN conjunct2, THEN conjunct2, THEN conjunct2, THEN conjunct1,
        THEN spec, THEN spec, THEN mp, THEN mp, THEN mp, OF e l m] .
  have 5: "handle ?L ?tools [(''body'', JStr ''not json'')] = Inl (JSONDecodeError ''not json'')"
    using th [of ?L _ _ _ _ "[(''body'', JStr ''not json'')]" ?tools,
        THEN conjunct2, THEN conjunct2, THEN conjunct2, THEN conjunct2, rule_format, OF e2 l2] .
  show ?thesis
    using 1 2 3 4 5 by simp
qed

section \<open>The session client: properties\<close>

text \<open>What the notification and the handshake do to the fields of the client.\<close>

lemma session_headers_sent [simp]:
  "session_headers (c\<lparr>sent := xs\<rparr>) = session_headers c"
  by (simp add: session_headers_def)

lemma session_headers_initialized [simp]:
  "session_headers (c\<lparr>initialized := b\<rparr>) = session_headers c"
  by (simp add: session_headers_def)

lemma store_session_id_fields [simp]:
  "base_url (store_session_id c r) = base_url c"
  "request_id (store_session_id c r) = request_id c"
  "initialized (store_session_id c r) = initialized c"
  "sent (store_session_id c r) = sent c"
  by (simp_all add: store_session_id_def split: option.splits)

lemma store_session_id_session:
  "session_id (store_session_id c r) = session_id c
   \<or> (\<exists>sid. sid \<noteq> [] \<and> session_id (store_session_id c r) = Some sid)"
  by (simp add: store_session_id_def split: option.splits)

lemma store_session_id_sent [simp]:
  "store_session_id (c\<lparr>sent := xs\<rparr>) r = (store_session_id c r)\<lparr>sent := xs\<rparr>"
  by (simp add: store_session_id_def split: option.splits)

lemma send_initialized_cases:
  assumes "send_initialized srv c = (r, c')"
  shows "(r = Inr True \<and> c' = c\<lparr>sent := sent c @ [notification_post c], initialized := True\<rparr>)
       \<or> ((\<exists>e. r = Inl e) \<and> c' = c\<lparr>sent := sent c @ [notification_post c]\<rparr>)"
  using assms
  by (auto simp: send_initialized_def post_def Let_def split: sum.splits)

text \<open>
  The handshake of a client whose flag is not set: it posts the \<^verbatim>\<open>initialize\<close> request
  first; it answers \<open>True\<close> exactly when it has also posted the notification and set the
  flag; in every other case the flag stays unset. The request id and the base URL are
  never touched.
\<close>

lemma initialize_try_cases:
  assumes ni: "\<not> initialized c" and run: "initialize_try L srv c = (r, c')"
  shows "base_url c' = base_url c \<and> request_id c' = request_id c
       \<and> (session_id c' = session_id c \<or> (\<exists>sid. sid \<noteq> [] \<and> session_id c' = Some sid))
       \<and> ((r = Inr True \<and> initialized c' \<and> sent c' = sent c @ [init_post c, notification_post c'])
          \<or> (r \<noteq> Inr True \<and> \<not> initialized c'
              \<and> (sent c' = sent c @ [init_post c]
                  \<or> sent c' = sent c @ [init_post c, notification_post c'])))"
proof -
  let ?c1 = "c\<lparr>sent := sent c @ [init_post c]\<rparr>"
  have post: "post srv c (init_post c) = (srv (sent c @ [init_post c]), ?c1)"
    by (simp add: post_def Let_def)
  note defs = initialize_try_def post_def Let_def
  have early: ?thesis if "r \<noteq> Inr True" and "c' = ?c1"
    using that ni by simp
  have stored: ?thesis if "r \<noteq> Inr True" and "c' = store_session_id ?c1 response" for response
    using that ni store_session_id_session [of c response] by auto
  have notified: ?thesis if "send_initialized srv (store_session_id ?c1 response) = (r, c')" for response
    using send_initialized_cases [OF that] ni store_session_id_session [of c response]
    by (auto simp: notification_post_def)
  show ?thesis
  proof (cases "srv (sent c @ [init_post c])")
    case (Inl e)
    with run ni have "r \<noteq> Inr True" and "c' = ?c1" by (auto simp: defs)
    then show ?thesis by (rule early)
  next
    case (Inr response)
    note resp = Inr
    show ?thesis
    proof (cases "status_error L response")
      case (Some m)
      with run ni resp have "r \<noteq> Inr True" and "c' = ?c1" by (auto simp: defs)
      then show ?thesis by (rule early)
    next
      case None
      note ok = None
      show ?thesis
      proof (cases "str_contains (case content_type response of None \<Rightarrow> [] | Some t \<Rightarrow> t) ''text/event-stream''")
        case True
        with run ni resp ok have "send_initialized srv (store_session_id ?c1 response) = (r, c')"
          by (simp add: defs)
        then show ?thesis by (rule notified)
      next
        case False
        note json = False
        show ?thesis
        proof (cases "loads L (response_text response)")
          case None
          with run ni resp ok json have "r \<noteq> Inr True" and "c' = store_session_id ?c1 response"
            by (auto simp: defs)
          then show ?thesis by (rule stored)
        next
          case (Some result)
          note parsed = Some
          show ?thesis
          proof (cases "init_result result")
            case (Inl e)
            with run ni resp ok json parsed
            have "r \<noteq> Inr True" and "c' = store_session_id ?c1 response"
              by (auto simp: defs)
            then show ?thesis by (rule stored)
          next
            case (Inr b)
            show ?thesis
            proof (cases b)
              case True
              with Inr run ni resp ok json parsed
              have "send_initialized srv (store_session_id ?c1 response) = (r, c')"
                by (simp add: defs)
              then show ?thesis by (rule notified)
            next
              case False
              with Inr run ni resp ok json parsed
              have "r \<noteq> Inr True" and "c' = store_session_id ?c1 response"
                by (auto simp: defs)
              then show ?thesis by (rule stored)
            qed
          qed
        qed
      qed
    qed
  qed
qed


lemma initialize_cases:
  assumes "\<not> initialized c" and "initialize L srv c = (b, c')"
  shows "base_url c' = base_url c \<and> request_id c' = request_id c
       \<and> (session_id c' = session_id c \<or> (\<exists>sid. sid \<noteq> [] \<and> session_id c' = Some sid))
       \<and> ((b \<and> initialized c' \<and> sent c' = sent c @ [init_post c, notification_post c'])
          \<or> (\<not> b \<and> \<not> initialized c'
              \<and> (sent c' = sent c @ [init_post c]
                  \<or> sent c' = sent c @ [init_post c, notification_post c'])))"
proof -
  obtain r where r: "initialize_try L srv c = (r, c')" and b: "b = (r = Inr True)"
    using assms(2)
    by (cases "initialize_try L srv c") (auto simp: initialize_def split: sum.splits)
  show ?thesis
    using initialize_try_cases [OF assms(1) r] b by auto
qed

lemma initialize_when_initialized:
  "initialized c \<Longrightarrow> initialize L srv c = (True, c)"
  by (simp add: initialize_def initialize_try_def)

text \<open>
  Claim C7. On a session whose flag is set, \<open>initialize\<close> returns \<open>True\<close> and leaves
  the client as it was: nothing is posted. So when a first call on a fresh session
  succeeds, it has posted the \<^verbatim>\<open>initialize\<close> request and the notification, a second call
  returns \<open>True\<close> at once, and after both calls the requests sent are still those two.
\<close>

theorem initialize_idempotent:
  "(initialized c \<longrightarrow> initialize L srv c = (True, c))
   \<and> (\<forall>c1. \<not> initialized c \<longrightarrow> initialize L srv c = (True, c1) \<longrightarrow>
         sent c1 = sent c @ [init_post c, notification_post c1]
         \<and> initialize L srv c1 = (True, c1)
         \<and> sent (snd (initialize L srv (snd (initialize L srv c))))
             = sent c @ [init_post c, notification_post c1])"
proof (intro conjI allI impI)
  assume "initialized c"
  then show "initialize L srv c = (True, c)" by (rule initialize_when_initialized)
next
  fix c1 assume ni: "\<not> initialized c" and run: "initialize L srv c = (True, c1)"
  from initialize_cases [OF ni run]
  have i: "initialized c1" and s: "sent c1 = sent c @ [init_post c, notification_post c1]"
    by auto
  show "sent c1 = sent c @ [init_post c, notification_post c1]" by (rule s)
  show again: "initialize L srv c1 = (True, c1)" using i by (rule initialize_when_initialized)
  show "sent (snd (initialize L srv (snd (initialize L srv c))))
          = sent c @ [init_post c, notification_post c1]"
    by (simp add: run again s)
qed

text \<open>
  Claim C7 on the reference library: a server that accepts the handshake and issues the
  session id \<^verbatim>\<open>abc123\<close>.
\<close>

theorem initialize_idempotent_witness:
  "fst (initialize reference_lib (fixed_server accepting_response)
          (mcp_client_init ''http://localhost:8000'')) = True
   \<and> map payload (sent (snd (initialize reference_lib (fixed_server accepting_response)
          (snd (initialize reference_lib (fixed_server accepting_response)
             (mcp_client_init ''http://localhost:8000''))))))
       = [init_request, initialized_notification]"
proof -
  let ?L = reference_lib
  let ?srv = "fixed_server accepting_response"
  let ?c = "mcp_client_init ''http://localhost:8000''"
  let ?c1 = "snd (initialize ?L ?srv ?c)"
  have ni: "\<not> initialized ?c" by (simp add: mcp_client_init_def)
  have run: "initialize ?L ?srv ?c = (True, ?c1)" by code_simp
  have f: "fst (initialize ?L ?srv ?c) = True" using run by (metis fst_conv)
  have "sent (snd (initialize ?L ?srv ?c1)) = sent ?c @ [init_post ?c, notification_post ?c1]"
    using initialize_idempotent [of ?c ?L ?srv, THEN conjunct2, THEN spec, THEN mp, THEN mp, OF ni run]
    by simp
  then have m: "map payload (sent (snd (initialize ?L ?srv ?c1))) = [init_request, initialized_notification]"
    by (simp add: mcp_client_init_def init_post_def notification_post_def)
  show ?thesis by (rule conjI [OF f m])
qed

text \<open>What \<open>call_tool\<close> does to the client, whatever the server answers.\<close>

lemma call_tool_state:
  "snd (call_tool L srv c tool_name arguments) =
     (let c1 = (if \<not> initialized c then snd (initialize L srv c) else c);
          c2 = c1\<lparr>request_id := request_id c1 + 1\<rparr>
      in c2\<lparr>sent := sent c2 @ [tools_call_post c2 tool_name arguments]\<rparr>)"
proof -
  define c2 where "c2 = (if \<not> initialized c then snd (initialize L srv c) else c)
                          \<lparr>request_id := request_id (if \<not> initialized c then snd (initialize L srv c) else c) + 1\<rparr>"
  have s: "send_tools_call L srv c tool_name arguments =
             (srv (sent c2 @ [tools_call_post c2 tool_name arguments]),
              c2\<lparr>sent := sent c2 @ [tools_call_post c2 tool_name arguments]\<rparr>)"
    by (simp add: send_tools_call_def post_def Let_def c2_def)
  have "snd (call_tool_try L srv c tool_name arguments) =
          c2\<lparr>sent := sent c2 @ [tools_call_post c2 tool_name arguments]\<rparr>"
    by (simp add: call_tool_try_def s split: sum.splits)
  moreover have "snd (call_tool L srv c tool_name arguments) =
                   snd (call_tool_try L srv c tool_name arguments)"
    by (cases "call_tool_try L srv c tool_name arguments")
       (auto simp: call_tool_def split: sum.splits py_exc.splits)
  ultimately show ?thesis by (simp add: Let_def c2_def)
qed

text \<open>
  Claim C10 as stated fails in its parenthesis: a handshake can fail after the session id
  of the response header has been stored, and then the \<^verbatim>\<open>tools/call\<close> request carries the
  session header. Here the server answers the handshake with a session id and a JSON-RPC
  error.
\<close>

theorem failed_handshake_can_leave_session_header:
  "fst (initialize reference_lib (fixed_server rejecting_response)
          (mcp_client_init ''http://localhost:8000'')) = False
   \<and> map req_headers
        (sent (snd (call_tool reference_lib (fixed_server rejecting_response)
                      (mcp_client_init ''http://localhost:8000'') ''get_aws_news'' (JObj []))))
       = [[], [(''Mcp-Session-Id'', ''abc123'')]]"
  by code_simp

text \<open>
  Claim C10, amended. On a session whose flag is not set, when the handshake that
  \<open>call_tool\<close> starts fails, \<open>call_tool\<close> still takes the next request id and posts the
  \<^verbatim>\<open>tools/call\<close> request right after the requests of the handshake; the request carries the
  session header exactly when a session id is stored by then (one that was stored before,
  or the one of the failed handshake's response). The flag is still unset afterwards, so
  the next \<open>call_tool\<close> starts with the \<^verbatim>\<open>initialize\<close> request again.
\<close>

theorem call_tool_ignores_failed_handshake:
  assumes "\<not> initialized c" and "initialize L srv c = (False, c1)"
  shows "(let c' = snd (call_tool L srv c tool_name arguments) in
            sent c' = sent c1 @ [\<lparr> url = base_url c @ ''/mcp'',
                                   payload = tool_request tool_name arguments (request_id c + 1),
                                   req_headers = session_headers c1 \<rparr>]
          \<and> take (Suc (length (sent c))) (sent c1) = sent c @ [init_post c]
          \<and> request_id c' = request_id c + 1
          \<and> \<not> initialized c'
          \<and> take (Suc (length (sent c'))) (sent (snd (call_tool L srv c' tool_name' arguments')))
              = sent c' @ [init_post c'])"
proof -
  from initialize_cases [OF assms]
  have f: "base_url c1 = base_url c" "request_id c1 = request_id c" "\<not> initialized c1"
    and s: "take (Suc (length (sent c))) (sent c1) = sent c @ [init_post c]"
    by auto
  define c' where "c' = snd (call_tool L srv c tool_name arguments)"
  have c': "c' = c1\<lparr>request_id := request_id c + 1,
                    sent := sent c1 @ [\<lparr> url = base_url c @ ''/mcp'',
                                   payload = tool_request tool_name arguments (request_id c + 1),
                                   req_headers = session_headers c1 \<rparr>]\<rparr>"
    using assms f by (simp add: c'_def call_tool_state Let_def tools_call_post_def session_headers_def)
  have ni: "\<not> initialized c'" using f by (simp add: c')
  obtain b c1' where again: "initialize L srv c' = (b, c1')" by (cases "initialize L srv c'") auto
  from initialize_cases [OF ni again]
  have t: "take (Suc (length (sent c'))) (sent c1') = sent c' @ [init_post c']"
    and len: "Suc (length (sent c')) \<le> length (sent c1')" by auto
  have "take (Suc (length (sent c'))) (sent (snd (call_tool L srv c' tool_name' arguments')))
          = sent c' @ [init_post c']"
    using ni again t len by (simp add: call_tool_state Let_def)
  then show ?thesis
    unfolding c'_def [symmetric] Let_def using s ni by (simp add: c' f)
qed


text \<open>
  Claim C10, amended, on the reference library with a server that refuses every
  connection: the handshake fails before any session id is seen, and the \<^verbatim>\<open>tools/call\<close>
  request goes out with id 1 and without a session header.
\<close>

theorem call_tool_ignores_failed_handshake_witness:
  "fst (initialize reference_lib (failing_server (HTTPError ''connection refused''))
          (mcp_client_init ''http://localhost:8000'')) = False
   \<and> sent (snd (call_tool reference_lib (failing_server (HTTPError ''connection refused''))
                  (mcp_client_init ''http://localhost:8000'') ''get_aws_news'' (JObj [])))
       = [\<lparr> url = ''http://localhost:8000/mcp'', payload = init_request, req_headers = [] \<rparr>,
          \<lparr> url = ''http://localhost:8000/mcp'',
            payload = tool_request ''get_aws_news'' (JObj []) 1, req_headers = [] \<rparr>]
   \<and> \<not> initialized (snd (call_tool reference_lib (failing_server (HTTPError ''connection refused''))
                  (mcp_client_init ''http://localhost:8000'') ''get_aws_news'' (JObj [])))"
proof -
  let ?L = reference_lib
  let ?srv = "failing_server (HTTPError ''connection refused'')"
  let ?c = "mcp_client_init ''http://localhost:8000''"
  let ?c1 = "snd (initialize ?L ?srv ?c)"
  let ?c' = "snd (call_tool ?L ?srv ?c ''get_aws_news'' (JObj []))"
  have ni: "\<not> initialized ?c" by (simp add: mcp_client_init_def)
  have run: "initialize ?L ?srv ?c = (False, ?c1)" by code_simp
  have f: "fst (initialize ?L ?srv ?c) = False" using run by (metis fst_conv)
  have s1: "sent ?c1 = [\<lparr> url = ''http://localhost:8000/mcp'', payload = init_request, req_headers = [] \<rparr>]"
    by code_simp
  have h1: "session_headers ?c1 = []" by code_simp
  have b: "base_url ?c = ''http://localhost:8000''" and r: "request_id ?c = 0" by code_simp+
  note th = call_tool_ignores_failed_handshake [OF ni run, of "''get_aws_news''" "JObj []",
      unfolded Let_def s1 h1 b r]
  have s: "sent ?c' = [\<lparr> url = ''http://localhost:8000/mcp'', payload = init_request, req_headers = [] \<rparr>,
                       \<lparr> url = ''http://localhost:8000/mcp'',
                         payload = tool_request ''get_aws_news'' (JObj []) 1, req_headers = [] \<rparr>]"
    using th by simp
  have i: "\<not> initialized ?c'" using th by simp
  show ?thesis using f s i by (intro conjI)
qed

text \<open>
  The request ids. No request of the handshake is a \<^verbatim>\<open>tools/call\<close> request, the handshake
  leaves the counter alone, and \<open>call_tool\<close> posts one \<^verbatim>\<open>tools/call\<close> request with the
  counter's next value.
\<close>

lemma tool_call_id_posts [simp]:
  "tool_call_id (init_post c) = None"
  "tool_call_id (notification_post c) = None"
  "tool_call_id (tools_call_post c tool_name arguments) = Some (request_id c)"
  by (simp_all add: tool_call_id_def init_post_def init_request_def notification_post_def
      initialized_notification_def tools_call_post_def tool_request_def)

lemma tool_call_ids_simps [simp]:
  "tool_call_ids [] = []"
  "tool_call_ids (req # reqs) =
     (case tool_call_id req of None \<Rightarrow> tool_call_ids reqs | Some i \<Rightarrow> i # tool_call_ids reqs)"
  "tool_call_ids (xs @ ys) = tool_call_ids xs @ tool_call_ids ys"
  by (simp_all add: tool_call_ids_def List.map_filter_def split: option.splits)

lemma initialize_ids:
  "tool_call_ids (sent (snd (initialize L srv c))) = tool_call_ids (sent c)
   \<and> request_id (snd (initialize L srv c)) = request_id c"
proof (cases "initialized c")
  case True
  then show ?thesis by (simp add: initialize_when_initialized)
next
  case False
  obtain b c' where run: "initialize L srv c = (b, c')" by (cases "initialize L srv c") auto
  from initialize_cases [OF False run] show ?thesis
    by (auto simp: run)
qed

lemma call_tool_ids:
  "tool_call_ids (sent (snd (call_tool L srv c tool_name arguments)))
     = tool_call_ids (sent c) @ [request_id c + 1]
   \<and> request_id (snd (call_tool L srv c tool_name arguments)) = request_id c + 1"
  using initialize_ids [of L srv c]
  by (simp add: call_tool_state Let_def)

lemma call_tool_seq_ids:
  "tool_call_ids (sent (call_tool_seq L srv c calls))
     = tool_call_ids (sent c) @ map (\<lambda>k. request_id c + 1 + int k) [0..<length calls]
   \<and> request_id (call_tool_seq L srv c calls) = request_id c + int (length calls)"
proof (induction calls arbitrary: c)
  case Nil
  show ?case by simp
next
  case (Cons call calls)
  obtain tool_name arguments where call: "call = (tool_name, arguments)" by (cases call)
  let ?c = "snd (call_tool L srv c tool_name arguments)"
  have "map (\<lambda>k. request_id c + 1 + int k) [0..<Suc (length calls)]
          = (request_id c + 1) # map (\<lambda>k. request_id c + 1 + 1 + int k) [0..<length calls]"
    by (simp add: map_upt_Suc del: upt_Suc)
  with Cons.IH [of ?c] call_tool_ids [of L srv c tool_name arguments]
  show ?case by (simp add: call del: upt_Suc)
qed

lemma upto_from_one:
  "map (\<lambda>k. 1 + int k) [0..<n] = [1..int n]"
proof (induction n)
  case 0
  show ?case by simp
next
  case (Suc n)
  have "[1..int (Suc n)] = [1..int n] @ [int n + 1]"
    using upto_rec2 [of 1 "int n + 1"] by (simp add: add.commute)
  with Suc show ?case by simp
qed

text \<open>
  Claim C6. Each \<open>call_tool\<close> posts one \<^verbatim>\<open>tools/call\<close> request, with the counter's next
  value as its id: a run of \<open>n\<close> calls on a session adds the ids that follow the
  counter, in order. On a new session they are \<open>1, ..., n\<close>: strictly increasing, never
  repeated, and all greater than the id \<open>0\<close> of the handshake.
\<close>

theorem request_ids_strictly_increasing:
  "tool_call_ids (sent (call_tool_seq L srv c calls))
     = tool_call_ids (sent c) @ map (\<lambda>k. request_id c + 1 + int k) [0..<length calls]
   \<and> (let ids = tool_call_ids (sent (call_tool_seq L srv (mcp_client_init u) calls))
      in ids = [1..int (length calls)]
         \<and> sorted_wrt (<) ids \<and> distinct ids \<and> (\<forall>i \<in> set ids. 0 < i))"
proof -
  have "tool_call_ids (sent (call_tool_seq L srv (mcp_client_init u) calls)) = [1..int (length calls)]"
    using call_tool_seq_ids [of L srv "mcp_client_init u" calls]
    by (simp add: mcp_client_init_def upto_from_one)
  moreover have "sorted_wrt (<) [1..int (length calls)]"
    by (simp add: strict_sorted_iff)
  ultimately show ?thesis
    using call_tool_seq_ids [of L srv c calls] by (simp add: Let_def)
qed

text \<open>
  Claim C6 on the reference library: three calls on a new session, against a server
  that answers every request with the same tool result.
\<close>

theorem request_ids_strictly_increasing_witness:
  \<open>tool_call_ids (sent (call_tool_seq reference_lib
       (fixed_server (json_response ''{"jsonrpc": "2.0", "result": {"content": [{"type": "text", "text": "ok"}]}, "id": 1}''))
       (mcp_client_init ''http://localhost:8000'')
       [(''get_aws_news'', JObj [(''topic'', JStr ''s3'')]),
        (''get_aws_feed_news'', JObj []),
        (''get_aws_news'', JObj [(''topic'', JStr ''ec2'')])]))
     = [1, 2, 3]\<close>
proof -
  have "[1..int (length [(''get_aws_news'', JObj [(''topic'', JStr ''s3'')]),
        (''get_aws_feed_news'', JObj []),
        (''get_aws_news'', JObj [(''topic'', JStr ''ec2'')])])] = [1, 2, 3]"
    by (simp add: upto_rec1)
  then show ?thesis
    using request_ids_strictly_increasing [of reference_lib _ "mcp_client_init ''http://localhost:8000''"
        "[(''get_aws_news'', JObj [(''topic'', JStr ''s3'')]),
        (''get_aws_feed_news'', JObj []),
        (''get_aws_news'', JObj [(''topic'', JStr ''ec2'')])]" "''http://localhost:8000''",
        THEN conjunct2, unfolded Let_def, THEN conjunct1]
    by simp
qed

section \<open>Decoding the response of a tool call\<close>

text \<open>
  \<open>call_tool\<close> once its post has returned a response: the value of the decoding, or the
  error string of the handler that catches what the decoding raises. The decoding raises
  no \<^verbatim>\<open>httpx.HTTPError\<close> once the status has been accepted.
\<close>

lemma call_tool_of_response:
  assumes "send_tools_call L srv c tool_name arguments = (Inr response, c')"
  shows "fst (call_tool L srv c tool_name arguments) =
           (case call_tool_response L response of
              Inr v \<Rightarrow> v
            | Inl (HTTPError m) \<Rightarrow> JStr (''Error calling tool: '' @ m)
            | Inl e \<Rightarrow> JStr (''Error: '' @ str_exc L e))"
  using assms
  by (simp add: call_tool_def call_tool_try_def split: sum.splits py_exc.splits)

lemma call_tool_of_json:
  assumes "send_tools_call L srv c tool_name arguments = (Inr response, c')"
    and "status_error L response = None"
    and "\<not> str_contains (case content_type response of None \<Rightarrow> [] | Some t \<Rightarrow> t) ''text/event-stream''"
    and "loads L (response_text response) = Some reply"
  shows "fst (call_tool L srv c tool_name arguments) =
           (case decode_json_result L reply of
              Inr v \<Rightarrow> v
            | Inl (HTTPError m) \<Rightarrow> JStr (''Error calling tool: '' @ m)
            | Inl e \<Rightarrow> JStr (''Error: '' @ str_exc L e))"
  using assms(2-4)
  by (simp add: call_tool_of_response [OF assms(1)] call_tool_response_def)

lemma item_text_object:
  "item_text (JObj item) =
     (case map_of item ''text'' of
        None \<Rightarrow> Inr None
      | Some t \<Rightarrow> (case py_len t of Inl e \<Rightarrow> Inl e | Inr n \<Rightarrow> Inr (Some t)))"
proof (cases "map_of item ''text''")
  case None
  then have "''text'' \<notin> fst ` set item" by (simp add: map_of_eq_None_iff)
  with None show ?thesis by (simp add: item_text_def)
next
  case (Some t)
  then have "''text'' \<in> fst ` set item" by (metis map_of_eq_None_iff option.distinct(1))
  with Some show ?thesis by (simp add: item_text_def)
qed

lemma content_text_string:
  "first_content tr = Some (JObj item) \<Longrightarrow> map_of item ''text'' = Some (JStr t) \<Longrightarrow>
     content_text tr = Inr (Some (JStr t))"
  by (simp add: content_text_def item_text_object)

lemma content_text_none:
  "first_content tr = None \<or> (\<exists>item. first_content tr = Some (JObj item) \<and> map_of item ''text'' = None) \<Longrightarrow>
     content_text tr = Inr None"
  by (auto simp: content_text_def item_text_object)

lemma first_content_string [simp]:
  "first_content (JStr s) = None"
  by (simp add: first_content_def)

text \<open>
  Claim C2 as stated fails at two replies. With the content \<^verbatim>\<open>[5]\<close> the first element has
  no \<^verbatim>\<open>text\<close> field and the result is no string, so the claim promises the serialized
  result; but the test \<^verbatim>\<open>'text' in content[0]\<close> raises \<^verbatim>\<open>TypeError\<close> on the number, and
  \<open>call_tool\<close> returns the \<^verbatim>\<open>Error: \<close> string of its handler. With the first element
  \<^verbatim>\<open>{"text": 5}\<close> the claim promises that text; but \<^verbatim>\<open>len(text)\<close> in the log message raises
  \<^verbatim>\<open>TypeError\<close> on the number, and \<open>call_tool\<close> again returns the \<^verbatim>\<open>Error: \<close> string.
\<close>

theorem json_result_of_unexpected_type:
  \<open>fst (call_tool reference_lib (fixed_server (json_response ''{"result": {"content": [5]}}''))
          (mcp_client_init ''http://localhost:8000'') ''get_aws_news'' (JObj []))
     = JStr (''Error: '' @ str_exc reference_lib (TypeError ''in'' (JNum 5)))
   \<and> JStr (''Error: '' @ str_exc reference_lib (TypeError ''in'' (JNum 5)))
     \<noteq> JStr (dumps_indent2 reference_lib (JObj [(''content'', JArr [JNum 5])]))
   \<and> fst (call_tool reference_lib (fixed_server (json_response ''{"result": {"content": [{"text": 5}]}}''))
          (mcp_client_init ''http://localhost:8000'') ''get_aws_news'' (JObj []))
     = JStr (''Error: '' @ str_exc reference_lib (TypeError ''len'' (JNum 5)))\<close>
  by code_simp

text \<open>
  Claim C2, amended. For a response that is not an event stream and whose body parses
  to \<open>reply\<close>: (1) when \<open>reply\<close> is an object with an \<^verbatim>\<open>error\<close> key holding an object with
  a string \<^verbatim>\<open>message\<close>, \<open>call_tool\<close> returns \<^verbatim>\<open>Error from MCP server: \<close> followed by the
  message, whether or not there is a \<^verbatim>\<open>result\<close> key. When \<open>reply\<close> is an object with no
  \<^verbatim>\<open>error\<close> key and with a \<^verbatim>\<open>result\<close> key: (2) it returns the text when the result is an
  object whose \<^verbatim>\<open>content\<close> is a list that is not empty and whose first element is an object
  with a string \<^verbatim>\<open>text\<close>; (3) it returns the result when that is a string; (4) it returns
  the result serialized with \<^verbatim>\<open>indent=2\<close> when the result is no string and either has no
  first content element (\<open>first_content\<close> is \<open>None\<close>: the result is no object, has no
  \<^verbatim>\<open>content\<close> key, or its content is no list or is empty) or has an object without a
  \<^verbatim>\<open>text\<close> key there. (5) When \<open>reply\<close> is no object, or is an object with neither key, it
  returns \<open>reply\<close> serialized with \<^verbatim>\<open>indent=2\<close>. Nothing is said here about an \<^verbatim>\<open>error\<close>
  value of another shape, a first content element that is no object, or a \<^verbatim>\<open>text\<close> that
  is no string.
\<close>

theorem call_tool_json_branch:
  assumes "send_tools_call L srv c tool_name arguments = (Inr response, c')"
    and "status_error L response = None"
    and "\<not> str_contains (case content_type response of None \<Rightarrow> [] | Some t \<Rightarrow> t) ''text/event-stream''"
    and "loads L (response_text response) = Some reply"
  shows "(\<forall>rd err m. reply = JObj rd \<longrightarrow> map_of rd ''error'' = Some (JObj err) \<longrightarrow>
            map_of err ''message'' = Some (JStr m) \<longrightarrow>
            fst (call_tool L srv c tool_name arguments) = JStr (''Error from MCP server: '' @ m))
       \<and> (\<forall>rd tr item t. reply = JObj rd \<longrightarrow> map_of rd ''error'' = None \<longrightarrow>
            map_of rd ''result'' = Some tr \<longrightarrow>
            first_content tr = Some (JObj item) \<longrightarrow> map_of item ''text'' = Some (JStr t) \<longrightarrow>
            fst (call_tool L srv c tool_name arguments) = JStr t)
       \<and> (\<forall>rd s. reply = JObj rd \<longrightarrow> map_of rd ''error'' = None \<longrightarrow>
            map_of rd ''result'' = Some (JStr s) \<longrightarrow>
            fst (call_tool L srv c tool_name arguments) = JStr s)
       \<and> (\<forall>rd tr. reply = JObj rd \<longrightarrow> map_of rd ''error'' = None \<longrightarrow>
            map_of rd ''result'' = Some tr \<longrightarrow> (\<forall>s. tr \<noteq> JStr s) \<longrightarrow>
            (first_content tr = None
             \<or> (\<exists>item. first_content tr = Some (JObj item) \<and> map_of item ''text'' = None)) \<longrightarrow>
            fst (call_tool L srv c tool_name arguments) = JStr (dumps_indent2 L tr))
       \<and> ((\<forall>rd. reply \<noteq> JObj rd)
            \<or> (\<exists>rd. reply = JObj rd \<and> map_of rd ''error'' = None \<and> map_of rd ''result'' = None) \<longrightarrow>
            fst (call_tool L srv c tool_name arguments) = JStr (dumps_indent2 L reply))"
proof (intro conjI allI impI)
  note bridge = call_tool_of_json [OF assms]
  {
    fix rd err m
    assume "reply = JObj rd" "map_of rd ''error'' = Some (JObj err)" "map_of err ''message'' = Some (JStr m)"
    then show "fst (call_tool L srv c tool_name arguments) = JStr (''Error from MCP server: '' @ m)"
      by (simp add: bridge decode_json_result_def dict_get_default_def)
  next
    fix rd tr item t
    assume "reply = JObj rd" "map_of rd ''error'' = None" "map_of rd ''result'' = Some tr"
      "first_content tr = Some (JObj item)" "map_of item ''text'' = Some (JStr t)"
    then show "fst (call_tool L srv c tool_name arguments) = JStr t"
      by (simp add: bridge decode_json_result_def content_text_string)
  next
    fix rd s
    assume "reply = JObj rd" "map_of rd ''error'' = None" "map_of rd ''result'' = Some (JStr s)"
    then show "fst (call_tool L srv c tool_name arguments) = JStr s"
      by (simp add: bridge decode_json_result_def content_text_def)
  next
    fix rd tr
    assume "reply = JObj rd" "map_of rd ''error'' = None" "map_of rd ''result'' = Some tr"
      and ns: "\<forall>s. tr \<noteq> JStr s"
      and "first_content tr = None
             \<or> (\<exists>item. first_content tr = Some (JObj item) \<and> map_of item ''text'' = None)"
    then have "decode_json_result L reply = Inr (JStr (dumps_indent2 L tr))"
      using ns by (cases tr) (simp_all add: decode_json_result_def content_text_none)
    then show "fst (call_tool L srv c tool_name arguments) = JStr (dumps_indent2 L tr)"
      by (simp add: bridge)
  next
    assume "(\<forall>rd. reply \<noteq> JObj rd)
            \<or> (\<exists>rd. reply = JObj rd \<and> map_of rd ''error'' = None \<and> map_of rd ''result'' = None)"
    then have "decode_json_result L reply = Inr (JStr (dumps_indent2 L reply))"
      by (cases reply) (auto simp: decode_json_result_def)
    then show "fst (call_tool L srv c tool_name arguments) = JStr (dumps_indent2 L reply)"
      by (simp add: bridge)
  }
qed


text \<open>Facts for concrete runs against a server with one fixed answer.\<close>

lemma fixed_server_send:
  "send_tools_call L (fixed_server r) c tool_name arguments =
     (Inr r, snd (send_tools_call L (fixed_server r) c tool_name arguments))"
  by (simp add: send_tools_call_def post_def fixed_server_def Let_def)

lemma json_response_accepted:
  "status_error reference_lib (json_response t) = None"
  "\<not> str_contains (case content_type (json_response t) of None \<Rightarrow> [] | Some ct \<Rightarrow> ct) ''text/event-stream''"
  "response_text (json_response t) = t"
  by (simp_all add: json_response_def reference_lib_def reference_status_error_def startswith_def)

text \<open>The five cases of claim C2, amended, on the reference library.\<close>

theorem call_tool_json_branch_witness:
  \<open>fst (call_tool reference_lib
          (fixed_server (json_response ''{"jsonrpc": "2.0", "error": {"message": "boom"}, "id": 1}''))
          (mcp_client_init ''http://localhost:8000'') ''get_aws_news'' (JObj []))
     = JStr ''Error from MCP server: boom''
   \<and> fst (call_tool reference_lib
          (fixed_server (json_response ''{"result": {"content": [{"type": "text", "text": "X"}]}}''))
          (mcp_client_init ''http://localhost:8000'') ''get_aws_news'' (JObj []))
     = JStr ''X''
   \<and> fst (call_tool reference_lib
          (fixed_server (json_response ''{"jsonrpc": "2.0", "result": "plain", "id": 1}''))
          (mcp_client_init ''http://localhost:8000'') ''get_aws_news'' (JObj []))
     = JStr ''plain''
   \<and> fst (call_tool reference_lib
          (fixed_server (json_response ''{"result": {"count": 3}}''))
          (mcp_client_init ''http://localhost:8000'') ''get_aws_news'' (JObj []))
     = JStr (dumps_indent2 reference_lib (JObj [(''count'', JNum 3)]))
   \<and> fst (call_tool reference_lib
          (fixed_server (json_response ''[1, 2]''))
          (mcp_client_init ''http://localhost:8000'') ''get_aws_news'' (JObj []))
     = JStr (dumps_indent2 reference_lib (JArr [JNum 1, JNum 2]))\<close>
proof -
  let ?L = reference_lib
  let ?c = "mcp_client_init ''http://localhost:8000''"
  let ?t1 = \<open>''{"jsonrpc": "2.0", "error": {"message": "boom"}, "id": 1}''\<close>
  let ?t2 = \<open>''{"result": {"content": [{"type": "text", "text": "X"}]}}''\<close>
  let ?t3 = \<open>''{"jsonrpc": "2.0", "result": "plain", "id": 1}''\<close>
  let ?t4 = \<open>''{"result": {"count": 3}}''\<close>
  let ?t5 = \<open>''[1, 2]''\<close>
  note th = call_tool_json_branch [OF fixed_server_send json_response_accepted(1,2),
      unfolded json_response_accepted(3)]
  have l1: "loads ?L ?t1 = Some (JObj [(''jsonrpc'', JStr ''2.0''),
              (''error'', JObj [(''message'', JStr ''boom'')]), (''id'', JNum 1)])"
    by code_simp
  have 1: "fst (call_tool ?L (fixed_server (json_response ?t1)) ?c ''get_aws_news'' (JObj []))
             = JStr (''Error from MCP server: '' @ ''boom'')"
  proof (rule th [OF l1, THEN conjunct1, rule_format, OF refl])
    show "map_of [(''jsonrpc'', JStr ''2.0''), (''error'', JObj [(''message'', JStr ''boom'')]),
                  (''id'', JNum 1)] ''error'' = Some (JObj [(''message'', JStr ''boom'')])"
      by simp
    show "map_of [(''message'', JStr ''boom'')] ''message'' = Some (JStr ''boom'')" by simp
  qed
  have l2: "loads ?L ?t2 = Some (JObj [(''result'',
              JObj [(''content'', JArr [JObj [(''type'', JStr ''text''), (''text'', JStr ''X'')]])])])"
    by code_simp
  have f2: "first_content (JObj [(''content'', JArr [JObj [(''type'', JStr ''text''), (''text'', JStr ''X'')]])])
              = Some (JObj [(''type'', JStr ''text''), (''text'', JStr ''X'')])"
    by (simp add: first_content_def)
  have 2: "fst (call_tool ?L (fixed_server (json_response ?t2)) ?c ''get_aws_news'' (JObj [])) = JStr ''X''"
  proof (rule th [OF l2, THEN conjunct2, THEN conjunct1, rule_format, OF refl _ _ f2])
    show "map_of [(''result'',
              JObj [(''content'', JArr [JObj [(''type'', JStr ''text''), (''text'', JStr ''X'')]])])] ''error''
            = None"
      by simp
    show "map_of [(''result'',
              JObj [(''content'', JArr [JObj [(''type'', JStr ''text''), (''text'', JStr ''X'')]])])] ''result''
            = Some (JObj [(''content'', JArr [JObj [(''type'', JStr ''text''), (''text'', JStr ''X'')]])])"
      by simp
    show "map_of [(''type'', JStr ''text''), (''text'', JStr ''X'')] ''text'' = Some (JStr ''X'')" by simp
  qed
  have l3: "loads ?L ?t3 = Some (JObj [(''jsonrpc'', JStr ''2.0''), (''result'', JStr ''plain''),
              (''id'', JNum 1)])"
    by code_simp
  have 3: "fst (call_tool ?L (fixed_server (json_response ?t3)) ?c ''get_aws_news'' (JObj [])) = JStr ''plain''"
    by (rule th [OF l3, THEN conjunct2, THEN conjunct2, THEN conjunct1, rule_format, OF refl]) simp_all
  have l4: "loads ?L ?t4 = Some (JObj [(''result'', JObj [(''count'', JNum 3)])])"
    by code_simp
  have 4: "fst (call_tool ?L (fixed_server (json_response ?t4)) ?c ''get_aws_news'' (JObj []))
             = JStr (dumps_indent2 ?L (JObj [(''count'', JNum 3)]))"
  proof (rule th [OF l4, THEN conjunct2, THEN conjunct2, THEN conjunct2, THEN conjunct1, rule_format, OF refl])
    show "map_of [(''result'', JObj [(''count'', JNum 3)])] ''error'' = None" by simp
    show "map_of [(''result'', JObj [(''count'', JNum 3)])] ''result'' = Some (JObj [(''count'', JNum 3)])"
      by simp
    show "JObj [(''count'', JNum 3)] \<noteq> JStr s" for s by simp
    show "first_content (JObj [(''count'', JNum 3)]) = None
          \<or> (\<exists>item. first_content (JObj [(''count'', JNum 3)]) = Some (JObj item)
                \<and> map_of item ''text'' = None)"
      by (simp add: first_content_def)
  qed
  have l5: "loads ?L ?t5 = Some (JArr [JNum 1, JNum 2])"
    by code_simp
  have 5: "fst (call_tool ?L (fixed_server (json_response ?t5)) ?c ''get_aws_news'' (JObj []))
             = JStr (dumps_indent2 ?L (JArr [JNum 1, JNum 2]))"
    by (rule th [OF l5, THEN conjunct2, THEN conjunct2, THEN conjunct2, THEN conjunct2, rule_format]) simp
  show ?thesis
    using 1 2 3 4 5 by simp
qed









section \<open>The tool-dispatch loop: properties\<close>

text \<open>
  The \<^verbatim>\<open>for\<close> loop over the tool calls: when it does not raise, it has appended one tool
  turn per call, in order; it does not raise when every argument string parses.
\<close>

lemma execute_tool_calls_shape:
  "execute_tool_calls L srv c messages tcs = (Inr messages', c') \<Longrightarrow>
     \<exists>rs. length rs = length tcs \<and> messages' = messages @ map2 tool_record tcs rs"
proof (induction tcs arbitrary: c messages)
  case Nil
  then show ?case by simp
next
  case (Cons tc tcs)
  from Cons.prems obtain args where a: "loads L (tc_arguments tc) = Some args"
    by (cases "loads L (tc_arguments tc)") auto
  obtain r c1 where r: "call_tool L srv c (tc_name tc) args = (r, c1)"
    by (cases "call_tool L srv c (tc_name tc) args") auto
  from Cons.prems a r
  have "execute_tool_calls L srv c1 (messages @ [tool_record tc r]) tcs = (Inr messages', c')"
    by simp
  from Cons.IH [OF this] obtain rs where "length rs = length tcs"
    and "messages' = (messages @ [tool_record tc r]) @ map2 tool_record tcs rs" by blast
  then have "length (r # rs) = length (tc # tcs)
             \<and> messages' = messages @ map2 tool_record (tc # tcs) (r # rs)" by simp
  then show ?case by blast
qed

lemma execute_tool_calls_total:
  "\<forall>tc \<in> set tcs. loads L (tc_arguments tc) \<noteq> None \<Longrightarrow>
     \<exists>messages' c'. execute_tool_calls L srv c messages tcs = (Inr messages', c')"
proof (induction tcs arbitrary: c messages)
  case Nil
  show ?case by simp
next
  case (Cons tc tcs)
  then obtain args where a: "loads L (tc_arguments tc) = Some args" by auto
  obtain r c1 where r: "call_tool L srv c (tc_name tc) args = (r, c1)"
    by (cases "call_tool L srv c (tc_name tc) args") auto
  from Cons.IH [of c1 "messages @ [tool_record tc r]"] Cons.prems a r
  show ?case by simp
qed

lemma chat_iteration_next:
  assumes "model messages = Inr am" and "msg_tool_calls am \<noteq> []"
    and "\<forall>tc \<in> set (msg_tool_calls am). loads L (tc_arguments tc) \<noteq> None"
  shows "\<exists>rs c'. length rs = length (msg_tool_calls am)
           \<and> chat_iteration L srv model c messages =
               (Inr (Next (messages @ assistant_record am # map2 tool_record (msg_tool_calls am) rs)), c')"
proof -
  from execute_tool_calls_total [OF assms(3)]
  obtain messages' c' where
    e: "execute_tool_calls L srv c (messages @ [assistant_record am]) (msg_tool_calls am) = (Inr messages', c')"
    by blast
  from execute_tool_calls_shape [OF e] obtain rs where "length rs = length (msg_tool_calls am)"
    and "messages' = (messages @ [assistant_record am]) @ map2 tool_record (msg_tool_calls am) rs"
    by blast
  with e assms(1,2) show ?thesis
    by (auto simp: chat_iteration_def)
qed

text \<open>
  Claim C8 as stated fails when the reply requests more than one tool call: the loop
  appends one tool turn per call. With two calls the sequence of one message grows to
  four.
\<close>

theorem two_tool_calls_add_three_messages:
  \<open>(case fst (chat_iteration reference_lib
                (fixed_server (json_response ''{"jsonrpc": "2.0", "result": "no news", "id": 1}''))
                (always_calls [\<lparr> tc_id = ''call_1'', tc_name = ''get_aws_news'', tc_arguments = ''{"topic": "s3"}'' \<rparr>,
                               \<lparr> tc_id = ''call_2'', tc_name = ''get_aws_feed_news'', tc_arguments = ''{}'' \<rparr>])
                (mcp_client_init ''http://localhost:8000'')
                [user_record ''What is new?'']) of
      Inr (Next messages') \<Rightarrow> map (\<lambda>m. dict_get_default (case m of JObj d \<Rightarrow> d | _ \<Rightarrow> []) ''role'' JNull) messages'
    | _ \<Rightarrow> [])
   = [JStr ''user'', JStr ''assistant'', JStr ''tool'', JStr ''tool'']\<close>
  by code_simp

text \<open>
  Claim C8, amended. In an iteration in which the model's reply requests tool calls whose
  argument strings all parse as JSON, the message sequence grows by one assistant
  tool-call record followed by one tool-result entry for each requested call, in the order
  of the calls: by exactly two entries when one call is requested.
\<close>

theorem iteration_appends_assistant_and_tool_turns:
  assumes "model messages = Inr am" and "msg_tool_calls am \<noteq> []"
    and "\<forall>tc \<in> set (msg_tool_calls am). loads L (tc_arguments tc) \<noteq> None"
  shows "\<exists>rs c' messages'.
           chat_iteration L srv model c messages = (Inr (Next messages'), c')
           \<and> length rs = length (msg_tool_calls am)
           \<and> messages' = messages @ assistant_record am # map2 tool_record (msg_tool_calls am) rs
           \<and> length messages' = length messages + 1 + length (msg_tool_calls am)
           \<and> (length (msg_tool_calls am) = 1 \<longrightarrow> length messages' = length messages + 2)"
proof -
  from chat_iteration_next [where model = model and messages = messages, OF assms, of srv c]
  obtain rs c' where
    "length rs = length (msg_tool_calls am)"
    "chat_iteration L srv model c messages =
       (Inr (Next (messages @ assistant_record am # map2 tool_record (msg_tool_calls am) rs)), c')"
    by blast
  then show ?thesis by auto
qed


text \<open>
  Claim C8, amended, on the reference library: one requested call, two more messages.
\<close>

theorem iteration_appends_assistant_and_tool_turns_witness:
  \<open>\<exists>rs c' messages'.
      chat_iteration reference_lib
        (fixed_server (json_response ''{"jsonrpc": "2.0", "result": "no news", "id": 1}''))
        (always_calls [\<lparr> tc_id = ''call_1'', tc_name = ''get_aws_news'', tc_arguments = ''{"topic": "s3"}'' \<rparr>])
        (mcp_client_init ''http://localhost:8000'')
        [system_message, user_record ''What is new?'']
      = (Inr (Next messages'), c')
    \<and> length rs = 1
    \<and> messages' = [system_message, user_record ''What is new?'']
        @ assistant_record \<lparr> msg_content = JNull,
             msg_tool_calls = [\<lparr> tc_id = ''call_1'', tc_name = ''get_aws_news'', tc_arguments = ''{"topic": "s3"}'' \<rparr>] \<rparr>
        # map2 tool_record [\<lparr> tc_id = ''call_1'', tc_name = ''get_aws_news'', tc_arguments = ''{"topic": "s3"}'' \<rparr>] rs
    \<and> length messages' = 4\<close>
proof -
  let ?tc = \<open>\<lparr> tc_id = ''call_1'', tc_name = ''get_aws_news'', tc_arguments = ''{"topic": "s3"}'' \<rparr>\<close>
  let ?am = "\<lparr> msg_content = JNull, msg_tool_calls = [?tc] \<rparr>"
  let ?messages = "[system_message, user_record ''What is new?'']"
  have m: "always_calls [?tc] ?messages = Inr ?am" by (simp add: always_calls_def)
  have n: "msg_tool_calls ?am \<noteq> []" by simp
  have p: "\<forall>tc \<in> set (msg_tool_calls ?am). loads reference_lib (tc_arguments tc) \<noteq> None"
    by code_simp
  from iteration_appends_assistant_and_tool_turns
    [where model = "always_calls [?tc]" and messages = ?messages, OF m n p]
  show ?thesis by simp
qed







end
